theory Spec2Isabelle
  imports Main "HOL-Library.Word"
begin

unbundle bit_operations_syntax

section \<open>Bytes and character classes (url.c, lines 170-308)\<close>

text \<open>
  A C string or a (pointer, length) range is a \<open>string\<close>, one \<open>char\<close> per byte. Every
  buffer handed to the functions below is NUL-terminated by its callers, so a read at or
  beyond the end of the list yields the NUL byte.
\<close>

abbreviation NUL :: char where
  "NUL \<equiv> CHR 0x00"

definition byte_at :: "string \<Rightarrow> nat \<Rightarrow> char" where
  "byte_at s i = (if i < length s then s ! i else NUL)"

definition code :: "char \<Rightarrow> int" where
  "code c = of_char c"

text \<open>
  \<open>url_scanner_table\<close>: the 256 entries of the source, read off as index ranges, one
  predicate per flag bit.
\<close>

definition is_lwsp :: "char \<Rightarrow> bool" where
  "is_lwsp x = ((9 \<le> code x \<and> code x \<le> 13) \<or> code x = 32)"

definition is_domain :: "char \<Rightarrow> bool" where
  "is_domain x =
     (code x = 37 \<or> (45 \<le> code x \<and> code x \<le> 46) \<or> (48 \<le> code x \<and> code x \<le> 57)
      \<or> (65 \<le> code x \<and> code x \<le> 90) \<or> code x = 92 \<or> (94 \<le> code x \<and> code x \<le> 95)
      \<or> (97 \<le> code x \<and> code x \<le> 122) \<or> 128 \<le> code x)"

definition is_urlsafe :: "char \<Rightarrow> bool" where
  "is_urlsafe x =
     (code x = 34 \<or> code x = 37 \<or> (45 \<le> code x \<and> code x \<le> 46)
      \<or> (48 \<le> code x \<and> code x \<le> 57) \<or> code x = 60 \<or> code x = 62
      \<or> (65 \<le> code x \<and> code x \<le> 90) \<or> code x = 92 \<or> (94 \<le> code x \<and> code x \<le> 126)
      \<or> 128 \<le> code x)"

definition is_mailsafe :: "char \<Rightarrow> bool" where
  "is_mailsafe x =
     ((33 \<le> code x \<and> code x \<le> 37) \<or> (39 \<le> code x \<and> code x \<le> 57)
      \<or> (59 \<le> code x \<and> code x \<le> 60) \<or> code x = 62 \<or> (65 \<le> code x \<and> code x \<le> 126))"

text \<open>
  The ASCII predicates of GLib used by url.c. \<open>g_ascii_isspace\<close> knows HT, LF, FF, CR and
  SP but not VT, which is why the parsers test it again after \<open>is_lwsp\<close>.
\<close>

definition g_ascii_isspace :: "char \<Rightarrow> bool" where
  "g_ascii_isspace x = (code x = 9 \<or> code x = 10 \<or> code x = 12 \<or> code x = 13 \<or> code x = 32)"

definition g_ascii_isdigit :: "char \<Rightarrow> bool" where
  "g_ascii_isdigit x = (48 \<le> code x \<and> code x \<le> 57)"

definition g_ascii_isalnum :: "char \<Rightarrow> bool" where
  "g_ascii_isalnum x =
     ((48 \<le> code x \<and> code x \<le> 57) \<or> (65 \<le> code x \<and> code x \<le> 90)
      \<or> (97 \<le> code x \<and> code x \<le> 122))"

definition g_ascii_isxdigit :: "char \<Rightarrow> bool" where
  "g_ascii_isxdigit x =
     ((48 \<le> code x \<and> code x \<le> 57) \<or> (65 \<le> code x \<and> code x \<le> 70)
      \<or> (97 \<le> code x \<and> code x \<le> 102))"

definition g_ascii_isgraph :: "char \<Rightarrow> bool" where
  "g_ascii_isgraph x = (33 \<le> code x \<and> code x \<le> 126)"

definition g_ascii_tolower :: "char \<Rightarrow> char" where
  "g_ascii_tolower x = (if 65 \<le> code x \<and> code x \<le> 90 then char_of (code x + 32) else x)"

text \<open>
  \<open>g_ascii_strncasecmp\<close>: compare at most \<open>n\<close> bytes without regard to ASCII case, stopping
  at the terminator of either string.
\<close>

fun g_ascii_strncasecmp :: "string \<Rightarrow> string \<Rightarrow> nat \<Rightarrow> int" where
  "g_ascii_strncasecmp s1 s2 0 = 0"
| "g_ascii_strncasecmp (a # s1) (b # s2) (Suc n) =
     (if a = NUL \<or> b = NUL then code a - code b
      else if g_ascii_tolower a \<noteq> g_ascii_tolower b
        then code (g_ascii_tolower a) - code (g_ascii_tolower b)
      else g_ascii_strncasecmp s1 s2 n)"
| "g_ascii_strncasecmp s1 s2 (Suc n) = code (byte_at s1 0) - code (byte_at s2 0)"

definition is_url_start :: "char \<Rightarrow> bool" where
  "is_url_start c = (c = CHR ''('' \<or> c = CHR ''{'' \<or> c = CHR ''<'' \<or> c = CHR 0x27)"

definition is_url_end :: "char \<Rightarrow> bool" where
  "is_url_end c = (c = CHR '')'' \<or> c = CHR ''}'' \<or> c = CHR ''>'' \<or> c = CHR 0x27)"

section \<open>The matcher set (url.c, lines 52-148)\<close>

text \<open>
  The two callbacks of a matcher are named by its family; the flags are the three bits
  \<open>URL_FLAG_NOHTML\<close>, \<open>URL_FLAG_TLD_MATCH\<close> and \<open>URL_FLAG_STAR_MATCH\<close>.
\<close>

datatype matcher_family = File_matcher | Web_matcher | Tld_matcher | Email_matcher

record url_matcher =
  pattern :: string
  prefix :: string
  family :: matcher_family
  flag_nohtml :: bool
  flag_tld_match :: bool
  flag_star_match :: bool

definition mk_static ::
  "string \<Rightarrow> string \<Rightarrow> matcher_family \<Rightarrow> bool \<Rightarrow> url_matcher" where
  "mk_static pat pre fam nohtml =
     \<lparr>pattern = pat, prefix = pre, family = fam, flag_nohtml = nohtml,
      flag_tld_match = False, flag_star_match = False\<rparr>"

definition static_matchers :: "url_matcher list" where
  "static_matchers =
    [mk_static ''file://'' '''' File_matcher False,
     mk_static ''ftp://'' '''' Web_matcher False,
     mk_static ''sftp://'' '''' Web_matcher False,
     mk_static ''http://'' '''' Web_matcher False,
     mk_static ''https://'' '''' Web_matcher False,
     mk_static ''news://'' '''' Web_matcher False,
     mk_static ''nntp://'' '''' Web_matcher False,
     mk_static ''telnet://'' '''' Web_matcher False,
     mk_static ''webcal://'' '''' Web_matcher False,
     mk_static ''mailto:'' '''' Email_matcher False,
     mk_static ''callto://'' '''' Web_matcher False,
     mk_static ''h323:'' '''' Web_matcher False,
     mk_static ''sip:'' '''' Web_matcher False,
     mk_static ''www.'' ''http://'' Web_matcher False,
     mk_static ''ftp.'' ''ftp://'' Web_matcher True,
     mk_static ''@'' ''mailto://'' Email_matcher True]"

section \<open>Start probe of the web matchers (url.c, lines 1793-1816)\<close>

text \<open>
  \<open>cb->begin\<close> is offset 0 of \<open>text\<close> and \<open>pos\<close> the offset of the hit. The result is
  \<open>Some m_begin\<close> for TRUE and \<open>None\<close> for FALSE.
\<close>

definition url_web_start :: "string \<Rightarrow> nat \<Rightarrow> nat option" where
  "url_web_start text pos =
     (if pos > 0
         \<and> (g_ascii_strncasecmp (drop pos text) ''www'' 3 = 0
            \<or> g_ascii_strncasecmp (drop pos text) ''ftp'' 3 = 0)
         \<and> \<not> is_url_start (byte_at text (pos - 1))
         \<and> \<not> g_ascii_isspace (byte_at text (pos - 1))
      then None
      else if byte_at text pos = CHR ''.'' then None
      else Some pos)"

definition web_patterns :: "string list" where
  "web_patterns = map pattern (filter (\<lambda>m. family m = Web_matcher) static_matchers)"

section \<open>\<open>strtoul\<close> of the C library\<close>

text \<open>
  \<open>unsigned long\<close> and \<open>glong\<close> are 64 bits wide (LP64). \<open>strtoul\<close> skips white space,
  takes an optional sign, chooses the base from the prefix when \<open>base\<close> is 0, reads the
  longest run of digits, saturates at \<open>ULONG_MAX\<close> and negates modulo \<open>2 ^ 64\<close> after
  a minus sign. It returns the value and the unparsed rest (\<open>endptr\<close>); without any digit the
  value is 0 and the rest is the whole argument.
\<close>

definition c_isspace :: "char \<Rightarrow> bool" where
  "c_isspace x = ((9 \<le> code x \<and> code x \<le> 13) \<or> code x = 32)"

definition digit_val :: "char \<Rightarrow> int option" where
  "digit_val x =
     (if 48 \<le> code x \<and> code x \<le> 57 then Some (code x - 48)
      else if 97 \<le> code x \<and> code x \<le> 122 then Some (code x - 87)
      else if 65 \<le> code x \<and> code x \<le> 90 then Some (code x - 55)
      else None)"

definition is_digit_of :: "int \<Rightarrow> char \<Rightarrow> bool" where
  "is_digit_of b x = (case digit_val x of Some d \<Rightarrow> d < b | None \<Rightarrow> False)"

fun strtoul_digits :: "int \<Rightarrow> string \<Rightarrow> int \<Rightarrow> int \<times> string" where
  "strtoul_digits b [] acc = (acc, [])"
| "strtoul_digits b (x # xs) acc =
     (if is_digit_of b x then strtoul_digits b xs (acc * b + the (digit_val x))
      else (acc, x # xs))"

definition ULONG_MAX :: int where
  "ULONG_MAX = 2 ^ 64 - 1"

definition strtoul :: "string \<Rightarrow> int \<Rightarrow> 64 word \<times> string" where
  "strtoul nptr base =
     (let s0 = dropWhile c_isspace nptr;
          neg = (byte_at s0 0 = CHR ''-'');
          s1 = (if byte_at s0 0 = CHR ''-'' \<or> byte_at s0 0 = CHR ''+'' then drop 1 s0 else s0);
          hex = ((base = 0 \<or> base = 16) \<and> byte_at s1 0 = CHR ''0''
                 \<and> (byte_at s1 1 = CHR ''x'' \<or> byte_at s1 1 = CHR ''X'')
                 \<and> is_digit_of 16 (byte_at s1 2));
          b = (if base \<noteq> 0 then base else if hex then 16
               else if byte_at s1 0 = CHR ''0'' then 8 else 10);
          s2 = (if hex then drop 2 s1 else s1);
          (v, rest) = strtoul_digits b s2 0
      in if length rest = length s2 then (0, nptr)
         else if v > ULONG_MAX then (word_of_int ULONG_MAX, rest)
         else if neg then (- word_of_int v, rest)
         else (word_of_int v, rest))"

section \<open>The field table of the parsers\<close>

text \<open>
  \<open>struct http_parser_url\<close> is declared outside url.c. A field whose bit is set in
  \<open>field_set\<close> is \<open>Some (off, len)\<close>, offsets and lengths are natural numbers, and the
  port is the unsigned 16-bit value of the declaration. The parsers never set
  \<open>UF_PORT\<close>. With \<open>u == NULL\<close> the table is not stored; the model computes it all the same.
\<close>

record http_parser_url =
  uf_schema :: "(nat \<times> nat) option"
  uf_host :: "(nat \<times> nat) option"
  uf_path :: "(nat \<times> nat) option"
  uf_query :: "(nat \<times> nat) option"
  uf_fragment :: "(nat \<times> nat) option"
  uf_userinfo :: "(nat \<times> nat) option"
  u_port :: "16 word"

definition u_zero :: http_parser_url where
  "u_zero = \<lparr>uf_schema = None, uf_host = None, uf_path = None, uf_query = None,
             uf_fragment = None, uf_userinfo = None, u_port = 0\<rparr>"

text \<open>How a parser loop is left: the condition \<open>p < last\<close> failed, or a \<open>goto\<close>.\<close>

datatype loop_exit = Loop_end | Goto_set | Goto_out

datatype 's jump = Next 's | Jump loop_exit 's

section \<open>\<open>rspamd_mailto_parse\<close> (url.c, lines 480-632)\<close>

datatype mailto_state =
    parse_mailto | parse_slash_m | parse_slash_slash_m | parse_semicolon_m
  | parse_prefix_question | parse_destination | parse_equal | parse_user_m | parse_at_m
  | parse_domain_m | parse_suffix_question | parse_query_m

text \<open>
  The local variables: \<open>p\<close> and \<open>c\<close> are offsets from \<open>str\<close>; \<open>SET_U\<close> stores
  \<open>len = p - c\<close> and \<open>off = c - str\<close>. In both parsers \<open>c\<close> never passes \<open>p\<close>.
\<close>

record mailto_vars =
  m_st :: mailto_state
  m_p :: nat
  m_c :: nat
  m_u :: http_parser_url

definition mailto_init :: mailto_vars where
  "mailto_init = \<lparr>m_st = parse_mailto, m_p = 0, m_c = 0, m_u = u_zero\<rparr>"

definition mailto_step :: "string \<Rightarrow> mailto_vars \<Rightarrow> mailto_vars jump" where
  "mailto_step str s =
     (let t = str ! m_p s; p = m_p s; c = m_c s; u = m_u s in
      case m_st s of
        parse_mailto \<Rightarrow>
          if t = CHR '':''
          then Next (s\<lparr>m_st := parse_semicolon_m, m_u := u\<lparr>uf_schema := Some (c, p - c)\<rparr>,
                       m_p := p + 1\<rparr>)
          else Next (s\<lparr>m_p := p + 1\<rparr>)
      | parse_semicolon_m \<Rightarrow>
          if t = CHR ''/'' then Next (s\<lparr>m_st := parse_slash_m, m_p := p + 1\<rparr>)
          else Next (s\<lparr>m_st := parse_slash_slash_m\<rparr>)
      | parse_slash_m \<Rightarrow>
          if t = CHR ''/'' then Next (s\<lparr>m_st := parse_slash_slash_m, m_p := p + 1\<rparr>)
          else Jump Goto_out s
      | parse_slash_slash_m \<Rightarrow>
          if t = CHR ''?'' then Next (s\<lparr>m_st := parse_prefix_question, m_p := p + 1\<rparr>)
          else if t \<noteq> CHR ''/'' then Next (s\<lparr>m_c := p, m_st := parse_user_m\<rparr>)
          else Next (s\<lparr>m_p := p + 1\<rparr>)
      | parse_prefix_question \<Rightarrow>
          if t = CHR ''t'' then Next (s\<lparr>m_st := parse_destination\<rparr>)
          else Jump Goto_out s
      | parse_destination \<Rightarrow>
          if t = CHR ''='' then Next (s\<lparr>m_st := parse_equal, m_p := p + 1\<rparr>)
          else Next (s\<lparr>m_p := p + 1\<rparr>)
      | parse_equal \<Rightarrow> Next (s\<lparr>m_c := p, m_st := parse_user_m\<rparr>)
      | parse_user_m \<Rightarrow>
          if t = CHR ''@'' then
            (if p - c = 0 then Jump Goto_out s
             else Next (s\<lparr>m_u := u\<lparr>uf_userinfo := Some (c, p - c)\<rparr>, m_st := parse_at_m,
                          m_p := p + 1\<rparr>))
          else if \<not> is_mailsafe t then Jump Goto_out s
          else Next (s\<lparr>m_p := p + 1\<rparr>)
      | parse_at_m \<Rightarrow> Next (s\<lparr>m_c := p, m_st := parse_domain_m\<rparr>)
      | parse_domain_m \<Rightarrow>
          if t = CHR ''?''
          then Next (s\<lparr>m_u := u\<lparr>uf_host := Some (c, p - c)\<rparr>, m_st := parse_suffix_question,
                       m_p := p + 1\<rparr>)
          else if \<not> is_domain t \<and> t \<noteq> CHR ''.'' \<and> t \<noteq> CHR ''_'' then Jump Goto_out s
          else Next (s\<lparr>m_p := p + 1\<rparr>)
      | parse_suffix_question \<Rightarrow> Next (s\<lparr>m_c := p, m_st := parse_query_m\<rparr>)
      | parse_query_m \<Rightarrow>
          if \<not> is_mailsafe t then Jump Goto_out s
          else Next (s\<lparr>m_p := p + 1\<rparr>))"

text \<open>Transitions that do not advance \<open>p\<close> go to a state of smaller rank.\<close>

definition mailto_rank :: "mailto_state \<Rightarrow> nat" where
  "mailto_rank x =
     (case x of parse_semicolon_m \<Rightarrow> 2 | parse_slash_slash_m \<Rightarrow> 1 | parse_prefix_question \<Rightarrow> 1
      | parse_equal \<Rightarrow> 1 | parse_at_m \<Rightarrow> 1 | parse_suffix_question \<Rightarrow> 1 | _ \<Rightarrow> 0)"

function mailto_loop :: "string \<Rightarrow> mailto_vars \<Rightarrow> loop_exit \<times> mailto_vars" where
  "mailto_loop str s =
     (if m_p s < length str
      then (case mailto_step str s of Next s' \<Rightarrow> mailto_loop str s' | Jump e s' \<Rightarrow> (e, s'))
      else (Loop_end, s))"
  by pat_completeness auto
termination
  by (relation "measure (\<lambda>(str, s). 3 * (length str - m_p s) + mailto_rank (m_st s))")
     (auto simp: mailto_step_def mailto_rank_def Let_def
           split: mailto_state.splits if_splits)

declare mailto_loop.simps [simp del]

text \<open>The code after the loop; the result is \<open>(ret, u, end)\<close>.\<close>

definition mailto_finish ::
  "bool \<Rightarrow> loop_exit \<times> mailto_vars \<Rightarrow> int \<times> http_parser_url \<times> nat" where
  "mailto_finish strict r =
     (let (e, s) = r; p = m_p s; c = m_c s; u = m_u s;
          (ret, u') =
            (if e = Goto_out then (1, u)
             else if m_st s = parse_domain_m then
               (if p - c \<noteq> 0 then (0, u\<lparr>uf_host := Some (c, p - c)\<rparr>) else (1, u))
             else if m_st s = parse_query_m then
               (if p - c > 0 then (0, u\<lparr>uf_query := Some (c, p - c)\<rparr>) else (0, u))
             else (1, u))
      in if \<not> strict then (0, u', p) else (ret, u', p))"

definition rspamd_mailto_parse :: "bool \<Rightarrow> string \<Rightarrow> int \<times> http_parser_url \<times> nat" where
  "rspamd_mailto_parse strict str = mailto_finish strict (mailto_loop str mailto_init)"

section \<open>\<open>rspamd_web_parse\<close> (url.c, lines 634-1075)\<close>

text \<open>
  GLib's UTF-8 decoder and its Unicode tables are not part of the sources. On an ASCII
  byte \<open>g_utf8_get_char_validated\<close> returns the byte and \<open>g_unichar_isalnum\<close> is the ASCII
  test; what they return on a sequence that starts with a byte of \<open>0x80\<close> or more is left
  to two parameters, collected with the other library functions in \<open>library\<close>.
\<close>

datatype gunichar = Uc int | Uc_invalid | Uc_partial

record library =
  utf8_multibyte :: "string \<Rightarrow> gunichar"
  unichar_isalnum_wide :: "int \<Rightarrow> bool"
  str_lc_utf8_wide :: "string \<Rightarrow> string"
  inet_pton6_text :: "string \<Rightarrow> int list option"
  inet_ntop6 :: "int list \<Rightarrow> string"

definition g_utf8_get_char_validated :: "library \<Rightarrow> string \<Rightarrow> gunichar" where
  "g_utf8_get_char_validated lib bytes =
     (case bytes of [] \<Rightarrow> Uc_partial
      | b # _ \<Rightarrow> if code b < 128 then Uc (code b) else utf8_multibyte lib bytes)"

definition g_unichar_isalnum :: "library \<Rightarrow> gunichar \<Rightarrow> bool" where
  "g_unichar_isalnum lib uc =
     (case uc of
        Uc n \<Rightarrow> if n < 128 then g_ascii_isalnum (char_of n) else unichar_isalnum_wide lib n
      | _ \<Rightarrow> False)"

definition g_utf8_skip :: "char \<Rightarrow> nat" where
  "g_utf8_skip b =
     (if code b < 192 then 1 else if code b < 224 then 2 else if code b < 240 then 3
      else if code b < 248 then 4 else if code b < 252 then 5
      else if code b < 254 then 6 else 1)"

datatype web_state =
    parse_protocol | parse_slash | parse_slash_slash | parse_semicolon | parse_user
  | parse_at | parse_password_start | parse_password | parse_domain | parse_ipv6
  | parse_port_password | parse_port | parse_suffix_slash | parse_path | parse_query
  | parse_part

text \<open>
  \<open>slash\<close> is assigned before each of its uses; \<open>t\<close> is the byte read by the last
  iteration of the loop.
\<close>

record web_vars =
  w_st :: web_state
  w_p :: nat
  w_c :: nat
  w_slash :: nat
  w_user_seen :: bool
  w_t :: char
  w_u :: http_parser_url

definition web_init :: web_vars where
  "web_init = \<lparr>w_st = parse_protocol, w_p = 0, w_c = 0, w_slash = 0, w_user_seen = False,
               w_t = NUL, w_u = u_zero\<rparr>"

definition set_host :: "web_vars \<Rightarrow> web_vars" where
  "set_host s = s\<lparr>w_u := (w_u s)\<lparr>uf_host := Some (w_c s, w_p s - w_c s)\<rparr>\<rparr>"

text \<open>
  \<open>pt = strtoul (c, NULL, 10); if (pt == 0 || pt > 65535) goto out; u->port = pt;\<close>
  with \<open>pt\<close> a \<open>glong\<close>: the comparison is signed, the store truncates to 16 bits.
\<close>

definition port_value :: "string \<Rightarrow> nat \<Rightarrow> 16 word option" where
  "port_value str c =
     (let pt = sint (fst (strtoul (drop c str) 10))
      in if pt = 0 \<or> pt > 65535 then None else Some (word_of_int pt))"

definition lwsp_jump :: "bool \<Rightarrow> char \<Rightarrow> web_vars \<Rightarrow> web_vars jump" where
  "lwsp_jump strict t s =
     (if strict then (if g_ascii_isspace t then Jump Goto_set s else Jump Goto_out s)
      else Jump Goto_set s)"

definition web_step :: "library \<Rightarrow> bool \<Rightarrow> string \<Rightarrow> web_vars \<Rightarrow> web_vars jump" where
  "web_step lib strict str s0 =
     (let t = str ! w_p s0; s = s0\<lparr>w_t := t\<rparr>; p = w_p s; c = w_c s; u = w_u s in
      case w_st s of
        parse_protocol \<Rightarrow>
          if t = CHR '':''
          then Next (s\<lparr>w_st := parse_semicolon, w_u := u\<lparr>uf_schema := Some (c, p - c)\<rparr>,
                       w_p := p + 1\<rparr>)
          else if \<not> g_ascii_isalnum t \<and> t \<noteq> CHR ''+'' \<and> t \<noteq> CHR ''-'' then
            (if \<not> strict \<and> p > c
             then Next (s\<lparr>w_st := parse_domain, w_p := c, w_slash := c\<rparr>)
             else Jump Goto_out s)
          else Next (s\<lparr>w_p := p + 1\<rparr>)
      | parse_semicolon \<Rightarrow>
          if t = CHR ''/'' then Next (s\<lparr>w_st := parse_slash, w_p := p + 1\<rparr>)
          else Next (s\<lparr>w_st := parse_slash_slash\<rparr>)
      | parse_slash \<Rightarrow>
          if t = CHR ''/'' then Next (s\<lparr>w_st := parse_slash_slash, w_p := p + 1\<rparr>)
          else Jump Goto_out s
      | parse_slash_slash \<Rightarrow>
          if t \<noteq> CHR ''/'' then
            (if t = CHR ''[''
             then Next (s\<lparr>w_slash := p, w_st := parse_ipv6, w_p := p + 1, w_c := p + 1\<rparr>)
             else Next (s\<lparr>w_c := p, w_st := parse_domain, w_slash := p\<rparr>))
          else Next (s\<lparr>w_p := p + 1\<rparr>)
      | parse_ipv6 \<Rightarrow>
          if t = CHR '']'' then
            (if p - c = 0 then Jump Goto_out s
             else let s1 = (set_host s)\<lparr>w_p := p + 1\<rparr> in
               if byte_at str (p + 1) = CHR '':''
               then Next (s1\<lparr>w_st := parse_port, w_c := p + 2, w_p := p + 2\<rparr>)
               else if byte_at str (p + 1) = CHR ''/''
               then Next (s1\<lparr>w_st := parse_path, w_c := p + 2, w_p := p + 2\<rparr>)
               else if p + 1 \<noteq> length str then Jump Goto_out s1
               else Next (s1\<lparr>w_p := p + 2\<rparr>))
          else if \<not> g_ascii_isxdigit t \<and> t \<noteq> CHR '':'' \<and> t \<noteq> CHR ''.'' then Jump Goto_out s
          else Next (s\<lparr>w_p := p + 1\<rparr>)
      | parse_user \<Rightarrow>
          if t = CHR '':'' then
            (if p - c = 0 then Jump Goto_out s
             else Next (s\<lparr>w_u := u\<lparr>uf_userinfo := Some (c, p - c)\<rparr>,
                          w_st := parse_password_start, w_p := p + 1\<rparr>))
          else if t = CHR ''@'' then
            (if p - c = 0 then Jump Goto_out s
             else Next (s\<lparr>w_u := u\<lparr>uf_userinfo := Some (c, p - c)\<rparr>, w_st := parse_at,
                          w_p := p + 1\<rparr>))
          else if \<not> g_ascii_isgraph t then Jump Goto_out s
          else Next (s\<lparr>w_p := p + 1\<rparr>)
      | parse_password_start \<Rightarrow>
          if t = CHR ''@'' then Next (s\<lparr>w_st := parse_at, w_p := p + 1\<rparr>)
          else Next (s\<lparr>w_c := p, w_st := parse_password, w_p := p + 1\<rparr>)
      | parse_password \<Rightarrow>
          if t = CHR ''@'' then Next (s\<lparr>w_st := parse_at, w_p := p + 1\<rparr>)
          else if \<not> g_ascii_isgraph t then Jump Goto_out s
          else Next (s\<lparr>w_p := p + 1\<rparr>)
      | parse_at \<Rightarrow>
          if t = CHR ''[''
          then Next (s\<lparr>w_st := parse_ipv6, w_p := p + 1, w_c := p + 1\<rparr>)
          else Next (s\<lparr>w_c := p, w_st := parse_domain\<rparr>)
      | parse_domain \<Rightarrow>
          if t = CHR ''/'' \<or> t = CHR '':'' \<or> t = CHR ''?'' \<or> t = CHR ''#'' then
            (if p - c = 0 then Jump Goto_out s
             else if t = CHR ''/''
               then Next ((set_host s)\<lparr>w_st := parse_suffix_slash, w_p := p + 1\<rparr>)
             else if t = CHR ''?''
               then Next ((set_host s)\<lparr>w_st := parse_query, w_c := p + 1, w_p := p + 1\<rparr>)
             else if t = CHR ''#''
               then Next ((set_host s)\<lparr>w_st := parse_part, w_c := p + 1, w_p := p + 1\<rparr>)
             else if \<not> w_user_seen s
               then Next (s\<lparr>w_st := parse_port_password, w_p := p + 1\<rparr>)
             else Next ((set_host s)\<lparr>w_st := parse_port, w_c := p + 1, w_p := p + 1\<rparr>))
          else if is_url_end t then Jump Goto_set s
          else if t \<noteq> CHR ''.'' \<and> t \<noteq> CHR ''-'' \<and> t \<noteq> CHR ''_'' \<and> t \<noteq> CHR ''%'' then
            (let uc = g_utf8_get_char_validated lib (drop p str) in
             if uc = Uc_invalid then Jump Goto_out s
             else if \<not> g_unichar_isalnum lib uc
               then (if strict then Jump Goto_out s else Jump Goto_set s)
             else Next (s\<lparr>w_p := p + g_utf8_skip t\<rparr>))
          else Next (s\<lparr>w_p := p + 1\<rparr>)
      | parse_port_password \<Rightarrow>
          if g_ascii_isdigit t
          then Next ((set_host (s\<lparr>w_c := w_slash s, w_p := p - 1\<rparr>))
                       \<lparr>w_st := parse_port, w_p := p, w_c := p\<rparr>)
          else Next (s\<lparr>w_p := w_slash s, w_c := w_slash s, w_user_seen := True,
                       w_st := parse_user\<rparr>)
      | parse_port \<Rightarrow>
          if t = CHR ''/'' then
            (case port_value str c of None \<Rightarrow> Jump Goto_out s
             | Some pt \<Rightarrow> Next (s\<lparr>w_u := u\<lparr>u_port := pt\<rparr>, w_st := parse_suffix_slash,
                                   w_p := p + 1\<rparr>))
          else if t = CHR ''?'' then
            (case port_value str c of None \<Rightarrow> Jump Goto_out s
             | Some pt \<Rightarrow> Next (s\<lparr>w_u := u\<lparr>u_port := pt\<rparr>, w_c := p + 1, w_st := parse_query,
                                   w_p := p + 1\<rparr>))
          else if t = CHR ''#'' then
            (case port_value str c of None \<Rightarrow> Jump Goto_out s
             | Some pt \<Rightarrow> Next (s\<lparr>w_u := u\<lparr>u_port := pt\<rparr>, w_c := p + 1, w_st := parse_part,
                                   w_p := p + 1\<rparr>))
          else if is_url_end t then Jump Goto_set s
          else if \<not> g_ascii_isdigit t then
            (if strict \<or> \<not> g_ascii_isspace t then Jump Goto_out s else Jump Goto_set s)
          else Next (s\<lparr>w_p := p + 1\<rparr>)
      | parse_suffix_slash \<Rightarrow>
          if t \<noteq> CHR ''/'' then Next (s\<lparr>w_c := p, w_st := parse_path\<rparr>)
          else Next (s\<lparr>w_p := p + 1\<rparr>)
      | parse_path \<Rightarrow>
          if t = CHR ''?''
          then Next (s\<lparr>w_u := (if p - c \<noteq> 0 then u\<lparr>uf_path := Some (c, p - c)\<rparr> else u),
                       w_c := p + 1, w_st := parse_query, w_p := p + 1\<rparr>)
          else if is_url_end t then Jump Goto_set s
          else if is_lwsp t then lwsp_jump strict t s
          else Next (s\<lparr>w_p := p + 1\<rparr>)
      | parse_query \<Rightarrow>
          if t = CHR ''#''
          then Next (s\<lparr>w_u := (if p - c \<noteq> 0 then u\<lparr>uf_query := Some (c, p - c)\<rparr> else u),
                       w_c := p + 1, w_st := parse_part, w_p := p + 1\<rparr>)
          else if is_url_end t then Jump Goto_set s
          else if is_lwsp t then lwsp_jump strict t s
          else Next (s\<lparr>w_p := p + 1\<rparr>)
      | parse_part \<Rightarrow>
          if is_url_end t then Jump Goto_set s
          else if is_lwsp t then lwsp_jump strict t s
          else Next (s\<lparr>w_p := p + 1\<rparr>))"

text \<open>
  The loop ends: a transition that does not advance \<open>p\<close> leads to a state of smaller
  rank, and each of the two rewinds (\<open>parse_protocol\<close> to \<open>parse_domain\<close> without
  \<open>strict\<close>, \<open>parse_port_password\<close> to \<open>parse_user\<close>) happens at most once.
\<close>

definition web_rank :: "web_state \<Rightarrow> nat" where
  "web_rank x =
     (case x of parse_semicolon \<Rightarrow> 2 | parse_slash_slash \<Rightarrow> 1 | parse_at \<Rightarrow> 1
      | parse_port_password \<Rightarrow> 1 | parse_suffix_slash \<Rightarrow> 1 | _ \<Rightarrow> 0)"

definition web_measure :: "string \<Rightarrow> web_vars \<Rightarrow> nat" where
  "web_measure str s =
     (if w_st s = parse_protocol then 1 else 0) * (6 * (length str + 3))
     + (if \<not> w_user_seen s \<or> w_st s = parse_port_password then 1 else 0)
       * (3 * (length str + 3))
     + (3 * (length str + 2 - w_p s) + web_rank (w_st s))"

function web_loop ::
  "library \<Rightarrow> bool \<Rightarrow> string \<Rightarrow> web_vars \<Rightarrow> loop_exit \<times> web_vars" where
  "web_loop lib strict str s =
     (if w_p s < length str
      then (case web_step lib strict str s of
              Next s' \<Rightarrow> web_loop lib strict str s'
            | Jump e s' \<Rightarrow> (e, s'))
      else (Loop_end, s))"
  by pat_completeness auto
termination
  apply (relation "measure (\<lambda>(lib, strict, str, s). web_measure str s)")
   apply simp
  subgoal for lib strict str s s'
    unfolding web_step_def Let_def
    apply (cases "w_st s")
    apply (auto simp add: web_measure_def web_rank_def set_host_def lwsp_jump_def
             g_utf8_skip_def split: if_splits option.splits)
    done
  done

declare web_loop.simps [simp del]

text \<open>The code at the labels \<open>set\<close> and \<open>out\<close>; the result is \<open>(ret, u, end)\<close>.\<close>

definition web_set :: "string \<Rightarrow> web_vars \<Rightarrow> int \<times> http_parser_url" where
  "web_set str s =
     (let p = w_p s; c = w_c s; u = w_u s in
      case w_st s of
        parse_domain \<Rightarrow> if p - c = 0 then (1, u) else (0, u\<lparr>uf_host := Some (c, p - c)\<rparr>)
      | parse_port \<Rightarrow>
          (case port_value str c of None \<Rightarrow> (1, u) | Some pt \<Rightarrow> (0, u\<lparr>u_port := pt\<rparr>))
      | parse_suffix_slash \<Rightarrow> (0, u)
      | parse_path \<Rightarrow> (0, if p - c > 0 then u\<lparr>uf_path := Some (c, p - c)\<rparr> else u)
      | parse_query \<Rightarrow> (0, if p - c > 0 then u\<lparr>uf_query := Some (c, p - c)\<rparr> else u)
      | parse_part \<Rightarrow> (0, if p - c > 0 then u\<lparr>uf_fragment := Some (c, p - c)\<rparr> else u)
      | parse_ipv6 \<Rightarrow> if w_t s \<noteq> CHR '']'' then (1, u) else (0, u)
      | _ \<Rightarrow> (1, u))"

definition web_finish ::
  "string \<Rightarrow> loop_exit \<times> web_vars \<Rightarrow> int \<times> http_parser_url \<times> nat" where
  "web_finish str r =
     (let (e, s) = r in
      if e = Goto_out then (1, w_u s, w_p s)
      else let (ret, u') = web_set str s in (ret, u', w_p s))"

definition rspamd_web_parse ::
  "library \<Rightarrow> bool \<Rightarrow> string \<Rightarrow> int \<times> http_parser_url \<times> nat" where
  "rspamd_web_parse lib strict str = web_finish str (web_loop lib strict str web_init)"

section \<open>The URL record (url.h)\<close>

datatype rspamd_url_flags =
  RSPAMD_URL_FLAG_PHISHED | RSPAMD_URL_FLAG_NUMERIC | RSPAMD_URL_FLAG_OBSCURED

datatype uri_errno =
    URI_ERRNO_OK | URI_ERRNO_EMPTY | URI_ERRNO_INVALID_PROTOCOL | URI_ERRNO_INVALID_PORT
  | URI_ERRNO_BAD_ENCODING | URI_ERRNO_BAD_FORMAT | URI_ERRNO_TLD_MISSING
  | URI_ERRNO_HOST_MISSING

datatype rspamd_url_protocol =
    PROTOCOL_FILE | PROTOCOL_FTP | PROTOCOL_HTTP | PROTOCOL_HTTPS | PROTOCOL_MAILTO
  | PROTOCOL_UNKNOWN

text \<open>
  A record owns at most two buffers: the URL text (\<open>uri->string\<close>) and the buffer that
  \<open>rspamd_url_is_ip\<close> allocates for the canonical address. A pointer is a buffer and an
  offset into it, \<open>None\<close> is \<open>NULL\<close>. The fields \<open>surbl\<close>, \<open>surbllen\<close> and
  \<open>phished_url\<close> are not touched by url.c and are left out.
\<close>

datatype buffer = Url_string | Host_buffer

type_synonym pointer = "buffer \<times> nat"

record rspamd_url =
  url_string :: string
  host_buffer :: string
  protocol :: rspamd_url_protocol
  port :: int
  user :: "pointer option"
  host :: "pointer option"
  data :: "pointer option"
  query :: "pointer option"
  fragment :: "pointer option"
  tld :: "pointer option"
  protocollen :: nat
  userlen :: nat
  hostlen :: nat
  datalen :: nat
  querylen :: nat
  fragmentlen :: nat
  tldlen :: nat
  urllen :: nat
  flags :: "rspamd_url_flags set"

text \<open>\<open>memset (uri, 0, sizeof (*uri))\<close>; protocol 0 is \<open>PROTOCOL_FILE\<close>.\<close>

definition url_zero :: rspamd_url where
  "url_zero =
     \<lparr>url_string = [], host_buffer = [], protocol = PROTOCOL_FILE, port = 0, user = None,
      host = None, data = None, query = None, fragment = None, tld = None,
      protocollen = 0, userlen = 0, hostlen = 0, datalen = 0, querylen = 0,
      fragmentlen = 0, tldlen = 0, urllen = 0, flags = {}\<rparr>"

definition buffer_of :: "rspamd_url \<Rightarrow> buffer \<Rightarrow> string" where
  "buffer_of uri b = (case b of Url_string \<Rightarrow> url_string uri | Host_buffer \<Rightarrow> host_buffer uri)"

text \<open>The byte \<open>uri->host[k]\<close> and the range \<open>uri->host\<close>, \<open>uri->hostlen\<close>.\<close>

definition host_byte :: "rspamd_url \<Rightarrow> nat \<Rightarrow> char" where
  "host_byte uri k =
     (case host uri of None \<Rightarrow> NUL | Some (b, off) \<Rightarrow> byte_at (buffer_of uri b) (off + k))"

definition host_bytes :: "rspamd_url \<Rightarrow> string" where
  "host_bytes uri =
     (case host uri of None \<Rightarrow> []
      | Some (b, off) \<Rightarrow> take (hostlen uri) (drop off (buffer_of uri b)))"

definition tld_bytes :: "rspamd_url \<Rightarrow> string" where
  "tld_bytes uri =
     (case tld uri of None \<Rightarrow> []
      | Some (b, off) \<Rightarrow> take (tldlen uri) (drop off (buffer_of uri b)))"

definition ptr_add :: "pointer option \<Rightarrow> nat \<Rightarrow> pointer option" where
  "ptr_add q k = (case q of None \<Rightarrow> None | Some (b, off) \<Rightarrow> Some (b, off + k))"

section \<open>The TLD callbacks (url.c, lines 1079-1132 and 1571-1625)\<close>

text \<open>
  The loop that looks for the label separators, common to both callbacks. \<open>h\<close> reads the
  text relative to its start, so \<open>start\<close> is 0 and \<open>p\<close> may reach \<open>-1\<close>. The result is
  \<open>(p, ndots, pos)\<close> after the loop.
\<close>

function tld_walk :: "(nat \<Rightarrow> char) \<Rightarrow> int \<Rightarrow> int \<Rightarrow> nat \<Rightarrow> int \<times> int \<times> nat" where
  "tld_walk h p ndots pos =
     (if p \<ge> 0 \<and> ndots > 0
      then (if h (nat p) = CHR ''.''
            then tld_walk h (p - 1) (ndots - 1) (nat p + 1)
            else tld_walk h (p - 1) ndots pos)
      else (p, ndots, pos))"
  by pat_completeness auto
termination
  by (relation "measure (\<lambda>(h, p, ndots, pos). nat (p + 1))") auto

declare tld_walk.simps [simp del]

text \<open>
  \<open>rspamd_tld_trie_callback (strnum, textpos, url)\<close>; \<open>ms\<close> is \<open>url_scanner->matchers\<close>,
  whose patterns are also \<open>url_scanner->patterns\<close>. The result is the return value and
  the record. \<open>textpos == (gint) url->hostlen - 1\<close> is written \<open>textpos + 1 = hostlen\<close>.
  \<open>find_tld\<close> is the second half of the callback, from the comment
  "Now we need to find top level domain" on.
\<close>

definition find_tld :: "rspamd_url \<Rightarrow> int \<Rightarrow> int \<Rightarrow> int \<times> rspamd_url" where
  "find_tld url p ndots =
     (let (p', ndots', pos') = tld_walk (host_byte url) p ndots 0
      in if ndots' = 0 \<or> p' = - 1
         then (1, url\<lparr>tld := ptr_add (host url) pos', tldlen := hostlen url - pos'\<rparr>)
         else (1, url))"

definition rspamd_tld_trie_callback ::
  "url_matcher list \<Rightarrow> nat \<Rightarrow> nat \<Rightarrow> rspamd_url \<Rightarrow> int \<times> rspamd_url" where
  "rspamd_tld_trie_callback ms strnum textpos url =
     (let matcher = ms ! strnum;
          pat_len = length (pattern matcher);
          ndots = (if flag_star_match matcher then 2 else 1);
          pos = textpos - pat_len;
          p = int pos - 1
      in if host_byte url pos \<noteq> CHR ''.'' \<or> textpos \<noteq> hostlen url
         then (if textpos + 1 = hostlen url
               then (if host_byte url textpos = CHR ''.''
                     then find_tld (url\<lparr>hostlen := hostlen url - 1\<rparr>) p ndots
                     else find_tld url p ndots)
               else (0, url))
         else find_tld url p ndots)"

text \<open>
  \<open>rspamd_tld_trie_find_callback\<close> works on \<open>cbdata\<close>: the text \<open>begin\<close> of length
  \<open>len\<close> and the token \<open>out\<close>, here the offset of \<open>out->begin\<close> in the text and
  \<open>out->len\<close>.
\<close>

definition rspamd_tld_trie_find_callback ::
  "url_matcher list \<Rightarrow> nat \<Rightarrow> nat \<Rightarrow> string \<times> (nat \<times> nat) option
     \<Rightarrow> int \<times> string \<times> (nat \<times> nat) option" where
  "rspamd_tld_trie_find_callback ms strnum textpos cbdata =
     (let (begin, out) = cbdata;
          matcher = ms ! strnum;
          pat_len = length (pattern matcher);
          ndots = (if flag_star_match matcher then 2 else 1);
          pos = textpos - pat_len;
          p = int pos - 1
      in if (byte_at begin pos \<noteq> CHR ''.'' \<or> textpos \<noteq> length begin)
            \<and> textpos + 1 \<noteq> length begin
         then (0, cbdata)
         else
           let (p', ndots', pos') = tld_walk (byte_at begin) p ndots 0
           in if ndots' = 0 \<or> p' = - 1
              then (1, begin, Some (pos', length begin - pos'))
              else (1, cbdata))"

section \<open>The scan of the automaton\<close>

text \<open>
  Modelled from the spec: \<open>acism_lookup\<close> of the Aho-Corasick library, which is not among
  the sources. It advances over the text and, for every position where a pattern ends,
  reports the index of the pattern and the end offset to the callback; the callback
  returns 0 to continue and anything else to stop, and that value is the result (0 when
  the text is exhausted). url.c asks for a scan without regard to case: the text is
  compared in lower case. Patterns that end at the same offset are reported in the order
  of their indices.
\<close>

definition hits_at :: "string list \<Rightarrow> string \<Rightarrow> nat \<Rightarrow> nat list" where
  "hits_at pats text textpos =
     filter (\<lambda>i. pats ! i \<noteq> [] \<and> length (pats ! i) \<le> textpos
                 \<and> take (length (pats ! i))
                      (drop (textpos - length (pats ! i)) (map g_ascii_tolower text))
                    = pats ! i)
       [0 ..< length pats]"

fun report_hits ::
  "(nat \<Rightarrow> nat \<Rightarrow> 'c \<Rightarrow> int \<times> 'c) \<Rightarrow> nat list \<Rightarrow> nat \<Rightarrow> 'c \<Rightarrow> int \<times> 'c" where
  "report_hits cb [] textpos ctx = (0, ctx)"
| "report_hits cb (i # rest) textpos ctx =
     (case cb i textpos ctx of
        (r, ctx') \<Rightarrow> if r \<noteq> 0 then (r, ctx') else report_hits cb rest textpos ctx')"

fun acism_scan ::
  "(nat \<Rightarrow> nat \<Rightarrow> 'c \<Rightarrow> int \<times> 'c) \<Rightarrow> string list \<Rightarrow> string \<Rightarrow> nat list \<Rightarrow> 'c
     \<Rightarrow> int \<times> 'c" where
  "acism_scan cb pats text [] ctx = (0, ctx)"
| "acism_scan cb pats text (textpos # rest) ctx =
     (case report_hits cb (hits_at pats text textpos) textpos ctx of
        (r, ctx') \<Rightarrow> if r \<noteq> 0 then (r, ctx') else acism_scan cb pats text rest ctx')"

definition acism_lookup ::
  "string list \<Rightarrow> string \<Rightarrow> (nat \<Rightarrow> nat \<Rightarrow> 'c \<Rightarrow> int \<times> 'c) \<Rightarrow> 'c \<Rightarrow> int \<times> 'c" where
  "acism_lookup pats text cb ctx = acism_scan cb pats text [1 ..< length text + 1] ctx"

section \<open>Building the matcher set (url.c, lines 335-444)\<close>

text \<open>
  \<open>rspamd_url_parse_tld_file\<close>, one line of the file at a time: \<open>linebuf\<close> is a line as
  \<open>getline\<close> returns it, with its newline. \<open>None\<close> is a line that adds no matcher.
\<close>

definition g_strchomp :: "string \<Rightarrow> string" where
  "g_strchomp s = rev (dropWhile g_ascii_isspace (rev s))"

definition mk_tld :: "string \<Rightarrow> bool \<Rightarrow> url_matcher" where
  "mk_tld p star =
     \<lparr>pattern = CHR ''.'' # p, prefix = ''http://'', family = Tld_matcher,
      flag_nohtml = True, flag_tld_match = True, flag_star_match = star\<rparr>"

definition tld_line_matcher :: "string \<Rightarrow> url_matcher option" where
  "tld_line_matcher linebuf =
     (if byte_at linebuf 0 = CHR ''/'' \<or> g_ascii_isspace (byte_at linebuf 0) then None
      else let l = g_strchomp linebuf in
        if byte_at l 0 = CHR ''!'' then None
        else if byte_at l 0 = CHR ''*'' then
          (if CHR ''.'' \<in> set l
           then Some (mk_tld (drop (length (takeWhile (\<lambda>x. x \<noteq> CHR ''.'') l) + 1) l) True)
           else None)
        else Some (mk_tld l False))"

text \<open>
  \<open>rspamd_url_init\<close>: the static matchers, then the matchers of the lines of the TLD file
  (no lines when there is no file). The result is \<open>url_scanner->matchers\<close>.
\<close>

definition rspamd_url_init :: "string list \<Rightarrow> url_matcher list" where
  "rspamd_url_init lines = static_matchers @ List.map_filter tld_line_matcher lines"

text \<open>The suffix list of the scenarios of the specification: \<open>com\<close>, \<open>co.uk\<close>, \<open>*.ck\<close>.\<close>

definition scenario_tld_file :: "string list" where
  "scenario_tld_file =
     [''// example'' @ [CHR 0x0A], ''com'' @ [CHR 0x0A], ''co.uk'' @ [CHR 0x0A],
      ''*.ck'' @ [CHR 0x0A]]"

definition scenario_matchers :: "url_matcher list" where
  "scenario_matchers = rspamd_url_init scenario_tld_file"

text \<open>The number of label separators in the bytes \<open>h a\<close>, ..., \<open>h (b - 1)\<close>.\<close>

definition separators :: "(nat \<Rightarrow> char) \<Rightarrow> nat \<Rightarrow> nat \<Rightarrow> nat" where
  "separators h a b = length (filter (\<lambda>i. h i = CHR ''.'') [a ..< b])"

text \<open>A record whose URL text is \<open>s\<close> and whose host is the range \<open>off\<close>, \<open>len\<close> of it.\<close>

definition url_with_host :: "string \<Rightarrow> nat \<Rightarrow> nat \<Rightarrow> rspamd_url" where
  "url_with_host s off len =
     url_zero\<lparr>url_string := s, urllen := length s, host := Some (Url_string, off),
              hostlen := len\<rparr>"

section \<open>The numeric-host decoder (url.c, lines 1134-1284)\<close>

text \<open>
  \<open>rspamd_strlcpy (dst, src, siz)\<close> copies at most \<open>siz - 1\<close> bytes and stops at the
  terminator of \<open>src\<close>; the result is the C string left in \<open>dst\<close>.
\<close>

definition rspamd_strlcpy :: "string \<Rightarrow> nat \<Rightarrow> string" where
  "rspamd_strlcpy src siz = takeWhile (\<lambda>x. x \<noteq> NUL) (take (siz - 1) src)"

text \<open>
  \<open>inet_pton (AF_INET, ...)\<close> of the C library: four decimal octets of at most 255
  separated by dots, no octet with a leading zero. An address is the list of its bytes
  in network order.
\<close>

fun inet_pton4_loop :: "string \<Rightarrow> bool \<Rightarrow> int list \<Rightarrow> int \<Rightarrow> int list option" where
  "inet_pton4_loop [] saw_digit done cur =
     (if length done = 3 \<and> saw_digit then Some (done @ [cur]) else None)"
| "inet_pton4_loop (ch # src) saw_digit done cur =
     (if g_ascii_isdigit ch then
        (if saw_digit \<and> cur = 0 then None
         else if cur * 10 + (code ch - 48) > 255 then None
         else if \<not> saw_digit \<and> length done + 1 > 4 then None
         else inet_pton4_loop src True done (cur * 10 + (code ch - 48)))
      else if ch = CHR ''.'' \<and> saw_digit then
        (if length done + 1 = 4 then None else inet_pton4_loop src False (done @ [cur]) 0)
      else None)"

definition inet_pton4 :: "string \<Rightarrow> int list option" where
  "inet_pton4 src = inet_pton4_loop src False [] 0"

definition dec_digit :: "int \<Rightarrow> char" where
  "dec_digit d = char_of (48 + d)"

definition dec_byte :: "int \<Rightarrow> string" where
  "dec_byte n =
     (if n \<ge> 100 then [dec_digit (n div 100), dec_digit (n div 10 mod 10), dec_digit (n mod 10)]
      else if n \<ge> 10 then [dec_digit (n div 10), dec_digit (n mod 10)]
      else [dec_digit n])"

definition inet_ntop4 :: "int list \<Rightarrow> string" where
  "inet_ntop4 bs =
     dec_byte (bs ! 0) @ ''.'' @ dec_byte (bs ! 1) @ ''.'' @ dec_byte (bs ! 2) @ ''.''
     @ dec_byte (bs ! 3)"

text \<open>
  \<open>inet_pton (AF_INET6, ...)\<close> accepts only hexadecimal digits, colons and dots, and no
  text without a colon; what it returns on such a text, and the text that \<open>inet_ntop\<close>
  prints for an IPv6 address, are parameters.
\<close>

definition inet_pton6 :: "library \<Rightarrow> string \<Rightarrow> int list option" where
  "inet_pton6 lib src =
     (if CHR '':'' \<in> set src
         \<and> list_all (\<lambda>ch. g_ascii_isxdigit ch \<or> ch = CHR '':'' \<or> ch = CHR ''.'') src
      then inet_pton6_text lib src else None)"

text \<open>
  The record after a successful decoding: the host is a fresh buffer with the canonical
  text, \<open>uri->tld = uri->host\<close> and \<open>uri->tldlen = uri->hostlen\<close>.
\<close>

definition numeric_host :: "rspamd_url \<Rightarrow> string \<Rightarrow> rspamd_url_flags set \<Rightarrow> rspamd_url" where
  "numeric_host uri text fl =
     uri\<lparr>host_buffer := text, host := Some (Host_buffer, 0), hostlen := length text,
         tld := Some (Host_buffer, 0), tldlen := length text, flags := flags uri \<union> fl\<rparr>"

text \<open>\<open>while (*(end - 1) == '.' && end > p) end--;\<close>\<close>

function trim_dots :: "string \<Rightarrow> nat \<Rightarrow> nat \<Rightarrow> nat" where
  "trim_dots b p e = (if e > p \<and> byte_at b (e - 1) = CHR ''.'' then trim_dots b p (e - 1) else e)"
  by pat_completeness auto
termination
  by (relation "measure (\<lambda>(b, p, e). e)") auto

declare trim_dots.simps [simp del]

text \<open>
  The numeric notation. All the integers of the loop are \<open>guint32\<close>; the machine is
  little-endian, so \<open>GUINT32_TO_BE\<close> and \<open>GUINT16_TO_BE\<close> swap bytes and \<open>memcpy\<close> puts
  the low byte of \<open>n\<close> first.
\<close>

definition GUINT32_TO_BE :: "32 word \<Rightarrow> 32 word" where
  "GUINT32_TO_BE t =
     push_bit 24 (t AND 0xFF) OR push_bit 8 (t AND 0xFF00) OR (drop_bit 8 t AND 0xFF00)
     OR drop_bit 24 t"

definition GUINT16_TO_BE :: "32 word \<Rightarrow> 32 word" where
  "GUINT16_TO_BE t = push_bit 8 (t AND 0xFF) OR (drop_bit 8 t AND 0xFF)"

text \<open>The \<open>for\<close> loop that counts the octets of \<open>t\<close>: the value of \<open>i\<close> after it.\<close>

definition octet_count :: "32 word \<Rightarrow> nat" where
  "octet_count t =
     (if t = 0 then 0 else if drop_bit 8 t = 0 then 1 else if drop_bit 16 t = 0 then 2
      else if drop_bit 24 t = 0 then 3 else 4)"

definition octet_order :: "nat \<Rightarrow> 32 word \<Rightarrow> 32 word" where
  "octet_order i t =
     (if i = 4 then GUINT32_TO_BE t
      else if i = 3 then drop_bit 8 (GUINT32_TO_BE (t AND 0xFFFFFF))
      else if i = 2 then GUINT16_TO_BE (t AND 0xFFFF)
      else t AND 0xFF)"

record ip_vars =
  ip_p :: nat
  ip_c :: nat
  ip_n :: "32 word"
  ip_dots :: nat
  ip_shift :: nat
  ip_t :: "32 word"
  ip_i :: nat
  ip_check_num :: bool

text \<open>One iteration of the loop; \<open>None\<close> is the \<open>return FALSE\<close> for a component too long.\<close>

definition ip_numeric_step :: "string \<Rightarrow> nat \<Rightarrow> ip_vars \<Rightarrow> ip_vars option" where
  "ip_numeric_step b e v =
     (let p = ip_p v; c = ip_c v in
      if ip_shift v < 32
         \<and> ((byte_at b p = CHR ''.'' \<and> ip_dots v < 3) \<or> (p = e \<and> ip_dots v \<le> 3))
      then
        (if p - c + 1 \<ge> 47 then None
         else
           let buf = rspamd_strlcpy (drop c b) (p - c + 1);
               dots = (if p < e \<and> byte_at b p = CHR ''.'' then ip_dots v + 1 else ip_dots v);
               (val, errstr) = strtoul buf 0;
               t = (ucast val :: 32 word)
           in if byte_at errstr 0 = NUL then
                (let nshift = (if t = 0 then ip_shift v + 8 else ip_shift v) + 8 * octet_count t;
                     i = octet_count t;
                     t' = octet_order i t
                 in Some (v\<lparr>ip_c := p + 1, ip_dots := dots, ip_t := t', ip_i := i,
                            ip_n := (if p \<noteq> e then ip_n v OR push_bit (ip_shift v) t'
                                     else ip_n v),
                            ip_shift := (if p \<noteq> e then nshift else ip_shift v),
                            ip_p := p + 1\<rparr>))
              else Some (v\<lparr>ip_c := p + 1, ip_dots := dots, ip_t := t, ip_check_num := False,
                           ip_p := p + 1\<rparr>))
      else Some (v\<lparr>ip_p := p + 1\<rparr>))"

function ip_numeric_loop :: "string \<Rightarrow> nat \<Rightarrow> ip_vars \<Rightarrow> ip_vars option" where
  "ip_numeric_loop b e v =
     (if ip_p v \<le> e \<and> ip_check_num v
      then (case ip_numeric_step b e v of None \<Rightarrow> None | Some v' \<Rightarrow> ip_numeric_loop b e v')
      else Some v)"
  by pat_completeness auto
termination
  by (relation "measure (\<lambda>(b, e, v). e + 1 - ip_p v)")
     (auto simp: ip_numeric_step_def Let_def split: if_splits prod.splits)

declare ip_numeric_loop.simps [simp del]

definition in_addr_of :: "32 word \<Rightarrow> int list" where
  "in_addr_of n =
     [uint (n AND 0xFF), uint (drop_bit 8 n AND 0xFF), uint (drop_bit 16 n AND 0xFF),
      uint (drop_bit 24 n)]"

text \<open>
  \<open>rspamd_url_is_ip\<close> is called with a host; the test of the trailing dots reads the byte
  only where \<open>end > p\<close>.
\<close>

definition rspamd_url_is_ip :: "library \<Rightarrow> rspamd_url \<Rightarrow> bool \<times> rspamd_url" where
  "rspamd_url_is_ip lib uri =
     (case host uri of
        None \<Rightarrow> (False, uri)
      | Some (hb, off) \<Rightarrow>
          let b = buffer_of uri hb;
              bracket = (byte_at b off = CHR ''['' \<and> byte_at b (off + hostlen uri - 1) = CHR '']'');
              p = (if bracket then off + 1 else off);
              e = trim_dots b p (if bracket then off + hostlen uri - 1 else off + hostlen uri)
          in if e - p > 46 then (False, uri)
             else
               let buf = rspamd_strlcpy (drop p b) (e - p + 1) in
               (case inet_pton4 buf of
                 Some in4 \<Rightarrow> (True, numeric_host uri (inet_ntop4 in4) {RSPAMD_URL_FLAG_NUMERIC})
               | None \<Rightarrow>
                  (case inet_pton6 lib buf of
                     Some in6 \<Rightarrow>
                       (True, numeric_host uri (inet_ntop6 lib in6) {RSPAMD_URL_FLAG_NUMERIC})
                   | None \<Rightarrow>
                      (case ip_numeric_loop b e
                              \<lparr>ip_p = p, ip_c = p, ip_n = 0, ip_dots = 0, ip_shift = 0,
                               ip_t = 0, ip_i = 0, ip_check_num = True\<rparr> of
                         None \<Rightarrow> (False, uri)
                       | Some v \<Rightarrow>
                           let n = ip_n v OR push_bit (8 * (4 - ip_i v)) (ip_t v) in
                           if ip_check_num v \<and> ip_dots v \<le> 4
                           then (True, numeric_host uri (inet_ntop4 (in_addr_of n))
                                         {RSPAMD_URL_FLAG_NUMERIC, RSPAMD_URL_FLAG_OBSCURED})
                           else (False, uri)))))"

section \<open>Decoding and lowering in place\<close>

text \<open>
  A region of a buffer is overwritten from its first byte; the bytes after the new
  contents keep their old values and the buffer keeps its length.
\<close>

definition write_at :: "string \<Rightarrow> nat \<Rightarrow> string \<Rightarrow> string" where
  "write_at buf off new = take off buf @ take (length buf - off) new @ drop (off + length new) buf"

definition memmove :: "string \<Rightarrow> nat \<Rightarrow> nat \<Rightarrow> nat \<Rightarrow> string" where
  "memmove buf dst src n = write_at buf dst (take n (drop src buf))"

definition region :: "string \<Rightarrow> nat \<Rightarrow> nat \<Rightarrow> string" where
  "region buf off len = take len (drop off buf)"

definition ptr_off :: "pointer option \<Rightarrow> nat" where
  "ptr_off q = (case q of None \<Rightarrow> 0 | Some (b, off) \<Rightarrow> off)"

definition ptr_sub :: "pointer option \<Rightarrow> nat \<Rightarrow> pointer option" where
  "ptr_sub q k = (case q of None \<Rightarrow> None | Some (b, off) \<Rightarrow> Some (b, off - k))"

text \<open>
  Modelled from the spec: \<open>rspamd_decode_url\<close> of src/libutil/util.c, which is not among
  the sources. An escape \<open>%HH\<close> with two hexadecimal digits becomes the byte it names; a
  \<open>%\<close> that is not followed by two hexadecimal digits is left as it is. The result is
  the decoded text, whose length is the return value.
\<close>

fun rspamd_decode_url :: "string \<Rightarrow> string" where
  "rspamd_decode_url (a # b # c # r) =
     (if a = CHR ''%'' \<and> g_ascii_isxdigit b \<and> g_ascii_isxdigit c
      then char_of (16 * the (digit_val b) + the (digit_val c)) # rspamd_decode_url r
      else a # rspamd_decode_url (b # c # r))"
| "rspamd_decode_url (a # r) = a # rspamd_decode_url r"
| "rspamd_decode_url [] = []"

text \<open>
  Modelled from the spec: \<open>rspamd_str_lc\<close> and \<open>rspamd_str_lc_utf8\<close> of src/libutil,
  which are not among the sources. The scheme is lowercased byte by byte; the host is
  lowercased with regard to UTF-8, which on a text of ASCII bytes is the same and on any
  other text is left to the parameter \<open>str_lc_utf8_wide\<close>.
\<close>

definition rspamd_str_lc :: "string \<Rightarrow> string" where
  "rspamd_str_lc s = map g_ascii_tolower s"

definition rspamd_str_lc_utf8 :: "library \<Rightarrow> string \<Rightarrow> string" where
  "rspamd_str_lc_utf8 lib s =
     (if list_all (\<lambda>x. code x < 128) s then map g_ascii_tolower s
      else take (length s) (str_lc_utf8_wide lib s))"

section \<open>\<open>rspamd_url_shift\<close> (url.c, lines 1286-1389)\<close>

datatype http_parser_url_fields =
  UF_SCHEMA | UF_HOST | UF_PORT | UF_PATH | UF_QUERY | UF_FRAGMENT | UF_USERINFO

text \<open>The second \<open>switch\<close>, whose cases fall through.\<close>

definition shift_fragment :: "nat \<Rightarrow> rspamd_url \<Rightarrow> rspamd_url" where
  "shift_fragment shift uri =
     (if fragmentlen uri > 0 then uri\<lparr>fragment := ptr_sub (fragment uri) shift\<rparr> else uri)"

definition shift_query :: "nat \<Rightarrow> rspamd_url \<Rightarrow> rspamd_url" where
  "shift_query shift uri =
     shift_fragment shift
       (if querylen uri > 0 then uri\<lparr>query := ptr_sub (query uri) shift\<rparr> else uri)"

definition shift_data :: "nat \<Rightarrow> rspamd_url \<Rightarrow> rspamd_url" where
  "shift_data shift uri =
     shift_query shift
       (if datalen uri > 0 then uri\<lparr>data := ptr_sub (data uri) shift\<rparr> else uri)"

definition shift_user_host :: "nat \<Rightarrow> rspamd_url \<Rightarrow> rspamd_url" where
  "shift_user_host shift uri =
     shift_data shift
       ((if hostlen uri > 0 then (\<lambda>x. x\<lparr>host := ptr_sub (host x) shift\<rparr>) else (\<lambda>x. x))
          (if userlen uri > 0 then uri\<lparr>user := ptr_sub (user uri) shift\<rparr> else uri))"

definition rspamd_url_shift ::
  "rspamd_url \<Rightarrow> nat \<Rightarrow> http_parser_url_fields \<Rightarrow> rspamd_url" where
  "rspamd_url_shift uri nlen field =
     (case field of
        UF_SCHEMA \<Rightarrow>
          if nlen \<ge> protocollen uri then uri
          else let shift = protocollen uri - nlen; old_shift = protocollen uri in
            shift_user_host shift
              (uri\<lparr>protocollen := protocollen uri - shift,
                   url_string := memmove (url_string uri) (protocollen uri - shift) old_shift
                                   (urllen uri - (protocollen uri - shift))\<rparr>)
      | UF_HOST \<Rightarrow>
          if nlen \<ge> hostlen uri then uri
          else let shift = hostlen uri - nlen; old_shift = hostlen uri in
            shift_data shift
              (uri\<lparr>hostlen := hostlen uri - shift,
                   url_string := memmove (url_string uri)
                                   (ptr_off (host uri) + (hostlen uri - shift))
                                   (ptr_off (host uri) + old_shift)
                                   (datalen uri + querylen uri + fragmentlen uri)\<rparr>)
      | UF_PATH \<Rightarrow>
          if nlen \<ge> datalen uri then uri
          else let shift = datalen uri - nlen; old_shift = datalen uri in
            shift_query shift
              (uri\<lparr>datalen := datalen uri - shift,
                   url_string := memmove (url_string uri)
                                   (ptr_off (data uri) + (datalen uri - shift))
                                   (ptr_off (data uri) + old_shift)
                                   (querylen uri + fragmentlen uri)\<rparr>)
      | UF_QUERY \<Rightarrow>
          if nlen \<ge> querylen uri then uri
          else let shift = querylen uri - nlen; old_shift = querylen uri in
            shift_fragment shift
              (uri\<lparr>querylen := querylen uri - shift,
                   url_string := memmove (url_string uri)
                                   (ptr_off (query uri) + (querylen uri - shift))
                                   (ptr_off (query uri) + old_shift)
                                   (fragmentlen uri)\<rparr>)
      | UF_FRAGMENT \<Rightarrow>
          if nlen \<ge> fragmentlen uri then uri
          else uri\<lparr>fragmentlen := fragmentlen uri - (fragmentlen uri - nlen)\<rparr>
      | _ \<Rightarrow> uri)"

section \<open>\<open>rspamd_url_parse\<close> (url.c, lines 1391-1569)\<close>

text \<open>
  \<open>unquoted_len = rspamd_decode_url (q, q, len); rspamd_url_shift (uri, unquoted_len,
  field);\<close> for the component at \<open>q\<close>.
\<close>

definition decode_component ::
  "rspamd_url \<Rightarrow> pointer option \<Rightarrow> nat \<Rightarrow> http_parser_url_fields \<Rightarrow> rspamd_url" where
  "decode_component uri q len field =
     (let decoded = rspamd_decode_url (region (url_string uri) (ptr_off q) len)
      in rspamd_url_shift
           (uri\<lparr>url_string := write_at (url_string uri) (ptr_off q) decoded\<rparr>)
           (length decoded) field)"

text \<open>The table \<open>protocols\<close>; its last entry, without a name, is the default.\<close>

definition protocols :: "(rspamd_url_protocol \<times> string) list" where
  "protocols =
     [(PROTOCOL_FILE, ''file''), (PROTOCOL_FTP, ''ftp''), (PROTOCOL_HTTP, ''http''),
      (PROTOCOL_HTTPS, ''https''), (PROTOCOL_MAILTO, ''mailto'')]"

fun find_protocol ::
  "string \<Rightarrow> nat \<Rightarrow> (rspamd_url_protocol \<times> string) list \<Rightarrow> rspamd_url_protocol" where
  "find_protocol s n [] = PROTOCOL_UNKNOWN"
| "find_protocol s n ((pr, name) # rest) =
     (if n = length name \<and> take n s = name then pr else find_protocol s n rest)"

text \<open>The loop over the field table: \<open>comp = p + u.field_data[i].off\<close>.\<close>

definition field_ptr :: "(nat \<times> nat) option \<Rightarrow> pointer option" where
  "field_ptr f = (case f of None \<Rightarrow> None | Some (off, len) \<Rightarrow> Some (Url_string, off))"

definition field_len :: "(nat \<times> nat) option \<Rightarrow> nat" where
  "field_len f = (case f of None \<Rightarrow> 0 | Some (off, len) \<Rightarrow> len)"

definition url_of_fields :: "http_parser_url \<Rightarrow> rspamd_url" where
  "url_of_fields u =
     url_zero\<lparr>protocollen := field_len (uf_schema u),
              host := field_ptr (uf_host u), hostlen := field_len (uf_host u),
              data := field_ptr (uf_path u), datalen := field_len (uf_path u),
              query := field_ptr (uf_query u), querylen := field_len (uf_query u),
              fragment := field_ptr (uf_fragment u), fragmentlen := field_len (uf_fragment u),
              user := field_ptr (uf_userinfo u), userlen := field_len (uf_userinfo u),
              port := uint (u_port u)\<rparr>"

text \<open>
  Lines 1512-1553: the components are decoded in place, the scheme and the host are
  lowercased and the protocol is looked up. \<open>p\<close> is the buffer that holds the URL.
\<close>

definition url_decode_lower :: "library \<Rightarrow> string \<Rightarrow> rspamd_url \<Rightarrow> rspamd_url" where
  "url_decode_lower lib p uri0 =
     (let uri1 = uri0\<lparr>url_string := p, urllen := length p\<rparr>;
          uri2 = decode_component uri1 (Some (Url_string, 0)) (protocollen uri1) UF_SCHEMA;
          uri3 = decode_component uri2 (host uri2) (hostlen uri2) UF_HOST;
          uri4 = (if datalen uri3 \<noteq> 0
                  then decode_component uri3 (data uri3) (datalen uri3) UF_PATH else uri3);
          uri5 = (if querylen uri4 \<noteq> 0
                  then decode_component uri4 (query uri4) (querylen uri4) UF_QUERY else uri4);
          uri6 = (if fragmentlen uri5 \<noteq> 0
                  then decode_component uri5 (fragment uri5) (fragmentlen uri5) UF_FRAGMENT
                  else uri5);
          uri7 = uri6\<lparr>url_string :=
                   write_at (url_string uri6) 0
                     (rspamd_str_lc (region (url_string uri6) 0 (protocollen uri6)))\<rparr>;
          uri8 = uri7\<lparr>url_string :=
                   write_at (url_string uri7) (ptr_off (host uri7))
                     (rspamd_str_lc_utf8 lib
                        (region (url_string uri7) (ptr_off (host uri7)) (hostlen uri7)))\<rparr>
      in uri8\<lparr>protocol := find_protocol (url_string uri8) (protocollen uri8) protocols\<rparr>)"

text \<open>
  Lines 1555-1568: the TLD is looked up in the host, a host without one is tried as a
  number, and a URL of an unknown protocol is refused.
\<close>

definition url_find_tld ::
  "library \<Rightarrow> url_matcher list \<Rightarrow> rspamd_url \<Rightarrow> uri_errno \<times> rspamd_url" where
  "url_find_tld lib ms uri =
     (let (found, uri1) = acism_lookup (map pattern ms) (host_bytes uri)
                            (rspamd_tld_trie_callback ms) uri;
          (numeric, uri2) = (if found = 0 then rspamd_url_is_ip lib uri1 else (True, uri1))
      in if \<not> numeric then (URI_ERRNO_TLD_MISSING, uri2)
         else if protocol uri2 = PROTOCOL_UNKNOWN then (URI_ERRNO_INVALID_PROTOCOL, uri2)
         else (URI_ERRNO_OK, uri2))"

text \<open>
  The function from the loop over the field table on (line 1472): \<open>p\<close> is the buffer of
  \<open>len\<close> bytes that holds the URL, \<open>u\<close> the field table of the parser.
\<close>

definition rspamd_url_parse_buffer ::
  "library \<Rightarrow> url_matcher list \<Rightarrow> string \<Rightarrow> http_parser_url \<Rightarrow> uri_errno \<times> rspamd_url" where
  "rspamd_url_parse_buffer lib ms p u =
     (if hostlen (url_of_fields u) = 0 then (URI_ERRNO_HOST_MISSING, url_of_fields u)
      else url_find_tld lib ms (url_decode_lower lib p (url_of_fields u)))"

text \<open>
  A library for texts of ASCII bytes: every longer UTF-8 sequence is invalid and no text
  is an IPv6 address.
\<close>

definition ascii_library :: library where
  "ascii_library =
     \<lparr>utf8_multibyte = (\<lambda>s. Uc_invalid), unichar_isalnum_wide = (\<lambda>n. False),
      str_lc_utf8_wide = (\<lambda>s. s), inet_pton6_text = (\<lambda>s. None), inet_ntop6 = (\<lambda>a. [])\<rparr>"

text \<open>
  The choice of the parser (lines 1448-1459) and the whole function. The result is the
  error code and the record \<open>uri\<close> as the function leaves it. When the parser stopped
  before the end of the text, the text up to \<open>end\<close> is copied to a fresh buffer.
\<close>

definition url_strict_parse :: "library \<Rightarrow> string \<Rightarrow> int \<times> http_parser_url \<times> nat" where
  "url_strict_parse lib uristring =
     (if length uristring > 7 then
        (if g_ascii_strncasecmp uristring ''mailto:'' 7 = 0
         then rspamd_mailto_parse True uristring
         else rspamd_web_parse lib True uristring)
      else rspamd_web_parse lib True uristring)"

definition fresh_copy :: "string \<Rightarrow> nat \<Rightarrow> string" where
  "fresh_copy uristring n =
     (let copied = rspamd_strlcpy uristring (n + 1)
      in copied @ replicate (n - length copied) NUL)"

definition rspamd_url_parse ::
  "library \<Rightarrow> url_matcher list \<Rightarrow> string \<Rightarrow> uri_errno \<times> rspamd_url" where
  "rspamd_url_parse lib ms uristring =
     (if byte_at uristring 0 = NUL then (URI_ERRNO_EMPTY, url_zero)
      else
        let (ret, u, end) = url_strict_parse lib uristring in
        if ret \<noteq> 0 then (URI_ERRNO_BAD_FORMAT, url_zero)
        else if end > 0 \<and> end \<noteq> length uristring
          then rspamd_url_parse_buffer lib ms (fresh_copy uristring end) u
          else rspamd_url_parse_buffer lib ms uristring u)"



section \<open>The end of \<open>rspamd_url_get_next\<close> (url.c, lines 2189-2207)\<close>



section \<open>The result of the walk for the TLD\<close>

text \<open>
  What \<open>tld_walk\<close> returns when it starts at the last byte of a host \<open>h\<close> of \<open>e\<close> bytes
  with \<open>n\<close> separators to find: it stops because the count or the host is exhausted,
  and \<open>pos'\<close> is the byte after the last separator it found, if it found one.
\<close>

definition walk_post :: "(nat \<Rightarrow> char) \<Rightarrow> nat \<Rightarrow> int \<Rightarrow> nat \<Rightarrow> int \<times> int \<times> nat \<Rightarrow> bool" where
  "walk_post h e n pos0 r =
     (case r of (p', n', pos') \<Rightarrow>
        (n < 0 \<or> n' = 0 \<or> p' = - 1)
        \<and> (min (nat n) (separators h 0 e) = 0 \<longrightarrow> pos' = pos0)
        \<and> (0 < min (nat n) (separators h 0 e) \<longrightarrow>
              0 < pos' \<and> pos' \<le> e \<and> h (pos' - 1) = CHR ''.''
              \<and> separators h pos' e = min (nat n) (separators h 0 e) - 1))"

section \<open>Invariants of the parser loops\<close>










section \<open>Facts about bytes\<close>

lemma code_inj: "code a = code b \<longleftrightarrow> a = b"
  by (auto simp: code_def)

lemma code_NUL: "code c = 0 \<longleftrightarrow> c = NUL"
  using code_inj [of c NUL] by (simp add: code_def)

lemma code_range: "0 \<le> code c \<and> code c < 256"
  using of_char_mod_256 [of c, where ?'a = int] pos_mod_bound [of 256 "of_char c"]
    pos_mod_sign [of 256 "of_char c"]
  by (simp add: code_def)

lemma code_tolower:
  "code (g_ascii_tolower c) = (if 65 \<le> code c \<and> code c \<le> 90 then code c + 32 else code c)"
  using code_range [of c] by (simp add: g_ascii_tolower_def code_def)

lemma tolower_NUL: "g_ascii_tolower c = NUL \<longleftrightarrow> c = NUL"
proof -
  have "code (g_ascii_tolower c) = 0 \<longleftrightarrow> code c = 0"
    using code_range [of c] by (simp add: code_tolower)
  then show ?thesis
    by (simp only: code_NUL)
qed

lemma strncasecmp3:
  assumes "x \<noteq> NUL" "y \<noteq> NUL" "z \<noteq> NUL"
  shows "g_ascii_strncasecmp (a # b # c # r) [x, y, z] 3 = 0 \<longleftrightarrow>
         g_ascii_tolower a = g_ascii_tolower x \<and> g_ascii_tolower b = g_ascii_tolower y
         \<and> g_ascii_tolower c = g_ascii_tolower z"
proof -
  have n: "g_ascii_tolower NUL = NUL" by (simp add: tolower_NUL)
  have "g_ascii_tolower x \<noteq> NUL" "g_ascii_tolower y \<noteq> NUL" "g_ascii_tolower z \<noteq> NUL"
    using assms by (simp_all add: tolower_NUL)
  then show ?thesis
    using assms n by (auto simp: eval_nat_numeral code_inj code_NUL)
qed

section \<open>The start probe of the web matchers\<close>

lemma web_patterns_eq:
  "web_patterns = [''ftp://'', ''sftp://'', ''http://'', ''https://'', ''news://'', ''nntp://'',
     ''telnet://'', ''webcal://'', ''callto://'', ''h323:'', ''sip:'', ''www.'', ''ftp.'']"
  by (simp add: web_patterns_def static_matchers_def mk_static_def)

lemma web_hit_shape:
  assumes "pat \<in> set web_patterns"
    and "map g_ascii_tolower (take (length pat) (drop pos text)) = pat"
  shows "\<exists>a b c r x y z q. drop pos text = a # b # c # r \<and> pat = x # y # z # q
            \<and> g_ascii_tolower a = x \<and> g_ascii_tolower b = y \<and> g_ascii_tolower c = z
            \<and> x \<noteq> NUL \<and> y \<noteq> NUL \<and> z \<noteq> NUL \<and> x \<noteq> CHR ''.''"
proof -
  obtain x y z q where pat: "pat = x # y # z # q" "x \<noteq> NUL" "y \<noteq> NUL" "z \<noteq> NUL"
      "x \<noteq> CHR ''.''"
    using assms(1) unfolding web_patterns_eq by auto
  from assms(2) pat obtain a b c r where "drop pos text = a # b # c # r"
    by (cases "drop pos text"; cases "tl (drop pos text)"; cases "tl (tl (drop pos text))")
       auto
  with assms(2) pat show ?thesis by auto
qed

text \<open>
  C8 (as the code has it). A hit of a web pattern at offset \<open>pos\<close> of the text, found
  without regard to case. Only for the patterns that begin with \<open>www\<close> or \<open>ftp\<close>
  (\<open>www.\<close>, \<open>ftp.\<close>, \<open>ftp://\<close>) does the start probe look at the byte before the hit:
  there it succeeds exactly when the hit is at the start of the buffer or that byte is
  one of the URL starters \<open>(\<close>, \<open>{\<close>, \<open><\<close>, \<open>'\<close> or one of the five bytes HT (9), LF (10),
  FF (12), CR (13) and SP (32) that \<open>g_ascii_isspace\<close> accepts; VT (11) is not among
  them. For every other web pattern (\<open>http://\<close>, \<open>https://\<close>, \<open>sftp://\<close>, ...) the probe
  succeeds whatever precedes the hit. On success \<open>m_begin\<close> is the offset of the hit.
\<close>

theorem url_web_start_probe:
  assumes "pat \<in> set web_patterns"
    and "map g_ascii_tolower (take (length pat) (drop pos text)) = pat"
  shows "(url_web_start text pos = Some pos \<longleftrightarrow>
           (take 3 pat \<in> {''www'', ''ftp''} \<longrightarrow>
              pos = 0
              \<or> byte_at text (pos - 1) \<in> {CHR ''('', CHR ''{'', CHR ''<'', CHR 0x27}
              \<or> code (byte_at text (pos - 1)) \<in> {9, 10, 12, 13, 32}))
         \<and> (url_web_start text pos \<noteq> Some pos \<longrightarrow> url_web_start text pos = None)"
proof -
  from web_hit_shape [OF assms] obtain a b c r x y z q where
    d: "drop pos text = a # b # c # r" and p: "pat = x # y # z # q"
    and l: "g_ascii_tolower a = x" "g_ascii_tolower b = y" "g_ascii_tolower c = z"
    and n: "x \<noteq> NUL" "y \<noteq> NUL" "z \<noteq> NUL" "x \<noteq> CHR ''.''"
    by blast
  have lw: "g_ascii_tolower CHR ''w'' = CHR ''w''" "g_ascii_tolower CHR ''f'' = CHR ''f''"
    "g_ascii_tolower CHR ''t'' = CHR ''t''" "g_ascii_tolower CHR ''p'' = CHR ''p''"
    "g_ascii_tolower CHR ''.'' = CHR ''.''"
    by (simp_all add: g_ascii_tolower_def code_def)
  have www: "g_ascii_strncasecmp (drop pos text) ''www'' 3 = 0 \<longleftrightarrow> take 3 pat = ''www''"
    unfolding d by (subst strncasecmp3) (auto simp: l p lw)
  have ftp: "g_ascii_strncasecmp (drop pos text) ''ftp'' 3 = 0 \<longleftrightarrow> take 3 pat = ''ftp''"
    unfolding d by (subst strncasecmp3) (auto simp: l p lw)
  have "pos < length text"
    using d by (cases "pos < length text") auto
  then have "byte_at text pos = a"
    using d by (simp add: byte_at_def hd_drop_conv_nth [symmetric])
  then have dot: "byte_at text pos \<noteq> CHR ''.''"
    using l(1) n(4) lw(5) by auto
  show ?thesis
    unfolding url_web_start_def www ftp using dot
    by (auto simp: is_url_start_def g_ascii_isspace_def)
qed

theorem url_web_start_probe_witness:
  "url_web_start ''see www.example.com'' 4 = Some 4
   \<and> url_web_start ''seewww.example.com'' 3 = None
   \<and> url_web_start ''seehttp://example.com'' 3 = Some 3"
proof -
  have m1: "''www.'' \<in> set web_patterns" and m2: "''http://'' \<in> set web_patterns"
    by (simp_all add: web_patterns_eq)
  have h1: "map g_ascii_tolower (take (length ''www.'') (drop 4 ''see www.example.com'')) = ''www.''"
    by code_simp
  have h2: "map g_ascii_tolower (take (length ''www.'') (drop 3 ''seewww.example.com'')) = ''www.''"
    by code_simp
  have h3: "map g_ascii_tolower (take (length ''http://'') (drop 3 ''seehttp://example.com''))
              = ''http://''"
    by code_simp
  have s: "code (byte_at ''see www.example.com'' (4 - 1)) = 32"
    by code_simp
  have e: "byte_at ''seewww.example.com'' (3 - 1) = CHR ''e''"
      "code (byte_at ''seewww.example.com'' (3 - 1)) = 101"
    by code_simp+
  show ?thesis
    using url_web_start_probe [OF m1 h1] url_web_start_probe [OF m1 h2]
      url_web_start_probe [OF m2 h3] s e
    by simp
qed

text \<open>
  C8 as the specification words it fails: a hit of \<open>http://\<close> in the middle of a word,
  after a byte that is neither a URL starter nor whitespace, passes the start probe; and
  a hit of \<open>www.\<close> after the whitespace byte VT (11) does not pass it.
\<close>

theorem url_web_start_counterexample:
  "''http://'' \<in> set web_patterns
   \<and> take (length ''http://'') (drop 1 ''xhttp://example.com'') = ''http://''
   \<and> url_web_start ''xhttp://example.com'' 1 = Some 1
   \<and> byte_at ''xhttp://example.com'' (1 - 1) = CHR ''x''
   \<and> ''www.'' \<in> set web_patterns
   \<and> take (length ''www.'') (drop 4 (''see'' @ [CHR 0x0B] @ ''www.example.com''))
       = ''www.''
   \<and> code (byte_at (''see'' @ [CHR 0x0B] @ ''www.example.com'') (4 - 1)) = 11
   \<and> url_web_start (''see'' @ [CHR 0x0B] @ ''www.example.com'') 4 = None"
  by code_simp

section \<open>The TLD callback\<close>

lemma find_tld_ret: "fst (find_tld url p ndots) = 1"
  by (simp add: find_tld_def Let_def split: prod.splits)

lemma tld_callback_accept_iff:
  "fst (rspamd_tld_trie_callback ms strnum textpos url) \<noteq> 0 \<longleftrightarrow>
     (host_byte url (textpos - length (pattern (ms ! strnum))) = CHR ''.'' \<and> textpos = hostlen url)
     \<or> textpos + 1 = hostlen url"
  by (auto simp: rspamd_tld_trie_callback_def Let_def find_tld_ret)

lemma separators_Suc:
  "a \<le> b \<Longrightarrow> separators h a (Suc b) = separators h a b + (if h b = CHR ''.'' then 1 else 0)"
  by (simp add: separators_def)

lemma separators_empty: "separators h a a = 0"
  by (simp add: separators_def)

lemma tld_walk_spec:
  "- 1 \<le> p \<Longrightarrow> walk_post h (nat (p + 1)) n pos0 (tld_walk h p n pos0)"
proof (induction h p n pos0 rule: tld_walk.induct)
  case (1 h p ndots pos)
  show ?case
  proof (cases "p \<ge> 0 \<and> ndots > 0")
    case False
    then have "tld_walk h p ndots pos = (p, ndots, pos)"
      by (subst tld_walk.simps) auto
    moreover have "p = - 1 \<or> ndots \<le> 0" using False "1.prems" by auto
    ultimately show ?thesis
      by (auto simp: walk_post_def separators_empty)
  next
    case True
    then have np: "nat (p + 1) = Suc (nat p)" "nat (p - 1 + 1) = nat p" "- 1 \<le> p - 1"
      by auto
    show ?thesis
    proof (cases "h (nat p) = CHR ''.''")
      case dot: True
      have eq: "tld_walk h p ndots pos = tld_walk h (p - 1) (ndots - 1) (nat p + 1)"
        using True dot by (subst tld_walk.simps) simp
      obtain p' n' pos' where r: "tld_walk h (p - 1) (ndots - 1) (nat p + 1) = (p', n', pos')"
        by (cases "tld_walk h (p - 1) (ndots - 1) (nat p + 1)") auto
      from "1.IH"(1) [OF True dot np(3)]
      have ih: "walk_post h (nat p) (ndots - 1) (nat p + 1) (p', n', pos')"
        using r by (simp add: np)
      have m: "min (nat ndots) (separators h 0 (Suc (nat p)))
                 = Suc (min (nat (ndots - 1)) (separators h 0 (nat p)))"
      proof -
        have "nat ndots = Suc (nat (ndots - 1))" using True by auto
        moreover have "separators h 0 (Suc (nat p)) = Suc (separators h 0 (nat p))"
          using dot by (simp add: separators_Suc)
        ultimately show ?thesis by simp
      qed
      have a: "n' = 0 \<or> p' = - 1"
        using ih True by (auto simp: walk_post_def)
      show ?thesis
      proof (cases "min (nat (ndots - 1)) (separators h 0 (nat p)) = 0")
        case z: True
        then have "pos' = nat p + 1" using ih by (simp add: walk_post_def)
        then show ?thesis
          unfolding eq r np(1) walk_post_def m z using a dot
          by (simp add: separators_empty)
      next
        case nz: False
        then have b: "0 < pos'" "pos' \<le> nat p" "h (pos' - 1) = CHR ''.''"
          "separators h pos' (nat p) = min (nat (ndots - 1)) (separators h 0 (nat p)) - 1"
          using ih by (simp_all add: walk_post_def)
        show ?thesis
          unfolding eq r np(1) walk_post_def m using a b dot nz
          by (simp add: separators_Suc)
      qed
    next
      case nodot: False
      have eq: "tld_walk h p ndots pos = tld_walk h (p - 1) ndots pos"
        using True nodot by (subst tld_walk.simps) simp
      obtain p' n' pos' where r: "tld_walk h (p - 1) ndots pos = (p', n', pos')"
        by (cases "tld_walk h (p - 1) ndots pos") auto
      from "1.IH"(2) [OF True nodot np(3)]
      have ih: "walk_post h (nat p) ndots pos (p', n', pos')"
        using r by (simp add: np)
      have m: "separators h 0 (Suc (nat p)) = separators h 0 (nat p)"
        using nodot by (simp add: separators_Suc)
      show ?thesis
        unfolding eq r np
        using ih nodot True
        by (auto simp: walk_post_def m separators_Suc)
    qed
  qed
qed

lemma find_tld_spec:
  assumes "find_tld url (int e - 1) n = (r, url')" and "0 < n"
  shows "\<exists>k\<le>e. url' = url\<lparr>tld := ptr_add (host url) k, tldlen := hostlen url - k\<rparr>
           \<and> (min (nat n) (separators (host_byte url) 0 e) = 0 \<longrightarrow> k = 0)
           \<and> (0 < min (nat n) (separators (host_byte url) 0 e) \<longrightarrow>
                 0 < k \<and> host_byte url (k - 1) = CHR ''.''
                 \<and> separators (host_byte url) k e
                    = min (nat n) (separators (host_byte url) 0 e) - 1)"
proof -
  obtain p' n' pos' where w: "tld_walk (host_byte url) (int e - 1) n 0 = (p', n', pos')"
    by (cases "tld_walk (host_byte url) (int e - 1) n 0") auto
  have "walk_post (host_byte url) (nat (int e - 1 + 1)) n 0
          (tld_walk (host_byte url) (int e - 1) n 0)"
    by (rule tld_walk_spec) simp
  then have post: "walk_post (host_byte url) e n 0 (p', n', pos')"
    by (simp add: w)
  then have set: "n' = 0 \<or> p' = - 1"
    using assms(2) by (simp add: walk_post_def)
  then have u: "url' = url\<lparr>tld := ptr_add (host url) pos', tldlen := hostlen url - pos'\<rparr>"
    using assms(1) by (auto simp: find_tld_def w)
  have le: "pos' \<le> e"
    using post by (cases "min (nat n) (separators (host_byte url) 0 e) = 0")
                  (simp_all add: walk_post_def)
  show ?thesis
    using post u le by (intro exI [of _ pos']) (simp add: walk_post_def)
qed

lemma host_byte_hostlen [simp]: "host_byte (url\<lparr>hostlen := n\<rparr>) = host_byte url"
  by (rule ext) (simp add: host_byte_def buffer_of_def split: option.splits buffer.splits)

text \<open>
  C2. When the callback accepts a hit (a non-zero return), it has walked backward from
  the byte before the start of the match, counting \<open>.\<close> separators: two for a
  \<open>STAR_MATCH\<close> pattern, one for a plain pattern. \<open>tld\<close> then begins at offset \<open>k\<close> of
  the host, the byte after the separator found, and reaches to the end of the host:
  the byte before \<open>k\<close> is a separator and between \<open>k\<close> and the start of the match
  there is one separator less than required. When the host has fewer separators to the
  left of the match than required, the walk takes those it has (\<open>m\<close> below) and with
  none \<open>tld\<close> is the whole host.
\<close>

theorem tld_callback_sets_tld:
  assumes "rspamd_tld_trie_callback ms strnum textpos url = (r, url')" and "r \<noteq> 0"
    and "length (pattern (ms ! strnum)) \<le> textpos"
  shows "\<exists>k \<le> textpos - length (pattern (ms ! strnum)).
           tld url' = ptr_add (host url) k \<and> tldlen url' = hostlen url' - k
           \<and> host url' = host url
           \<and> (let m = min (if flag_star_match (ms ! strnum) then 2 else 1)
                        (separators (host_byte url) 0 (textpos - length (pattern (ms ! strnum))))
              in (m = 0 \<longrightarrow> k = 0)
                 \<and> (0 < m \<longrightarrow> 0 < k \<and> host_byte url (k - 1) = CHR ''.''
                       \<and> separators (host_byte url) k (textpos - length (pattern (ms ! strnum)))
                          = m - 1))"
proof -
  define e where "e = textpos - length (pattern (ms ! strnum))"
  define n :: int where "n = (if flag_star_match (ms ! strnum) then 2 else 1)"
  have n: "0 < n" "nat n = (if flag_star_match (ms ! strnum) then 2 else 1)"
    by (simp_all add: n_def)
  from assms(1,2) obtain url1 where
    f: "find_tld url1 (int e - 1) n = (r, url')"
    and u1: "url1 = url \<or> url1 = url\<lparr>hostlen := hostlen url - 1\<rparr>"
    by (auto simp: rspamd_tld_trie_callback_def Let_def e_def n_def split: if_splits)
  have hb: "host_byte url1 = host_byte url" and h: "host url1 = host url"
    using u1 by auto
  from find_tld_spec [OF f n(1)] show ?thesis
    unfolding hb n(2) e_def [symmetric] Let_def
    using h by (elim exE conjE) (rule_tac x = k in exI, simp)
qed

theorem tld_callback_sets_tld_witness:
  "\<exists>k\<le>11. tld (snd (rspamd_tld_trie_callback scenario_matchers 16 15
                        (url_with_host ''http://www.example.com/'' 7 15)))
               = Some (Url_string, 7 + k)
          \<and> 0 < k
          \<and> host_byte (url_with_host ''http://www.example.com/'' 7 15) (k - 1) = CHR ''.''
          \<and> separators (host_byte (url_with_host ''http://www.example.com/'' 7 15)) k 11 = 0"
proof -
  define U where "U = url_with_host ''http://www.example.com/'' 7 15"
  obtain r U' where e: "rspamd_tld_trie_callback scenario_matchers 16 15 U = (r, U')"
    by (cases "rspamd_tld_trie_callback scenario_matchers 16 15 U") auto
  have "fst (rspamd_tld_trie_callback scenario_matchers 16 15
               (url_with_host ''http://www.example.com/'' 7 15)) = 1"
    by code_simp
  then have r: "r \<noteq> 0"
    using e by (simp add: U_def)
  have l: "length (pattern (scenario_matchers ! 16)) \<le> 15"
    by code_simp
  have m: "separators (host_byte (url_with_host ''http://www.example.com/'' 7 15)) 0 11 = 1"
      "length (pattern (scenario_matchers ! 16)) = 4"
      "flag_star_match (scenario_matchers ! 16) = False"
      "host (url_with_host ''http://www.example.com/'' 7 15) = Some (Url_string, 7)"
    by code_simp+
  show ?thesis
    using tld_callback_sets_tld [OF e r l] e
    unfolding U_def
    by (auto simp: ptr_add_def m)
qed

text \<open>
  C1. The callback is meant to accept a hit that ends one byte before the end of the host
  only when that last byte is a \<open>.\<close> (the comment "This is dot at the end of domain"),
  but the test of the byte has no \<open>else\<close> branch: a hit that ends one byte before the end
  of the host is accepted whatever the last byte is. With the rules \<open>com\<close>, \<open>co.uk\<close>
  and \<open>*.ck\<close>, the hit of \<open>.com\<close> at offset 11 of the host \<open>example.comx\<close> is
  accepted: the callback returns 1, leaves \<open>hostlen\<close> at 12 and sets \<open>tld\<close>.
\<close>

theorem tld_callback_accepts_hit_before_last_byte:
  "fst (rspamd_tld_trie_callback scenario_matchers 16 11
          (url_with_host ''http://example.comx/'' 7 12)) = 1
   \<and> pattern (scenario_matchers ! 16) = ''.com''
   \<and> host_bytes (url_with_host ''http://example.comx/'' 7 12) = ''example.comx''
   \<and> host_byte (url_with_host ''http://example.comx/'' 7 12) 11 = CHR ''x''
   \<and> hostlen (snd (rspamd_tld_trie_callback scenario_matchers 16 11
          (url_with_host ''http://example.comx/'' 7 12))) = 12
   \<and> tld_bytes (snd (rspamd_tld_trie_callback scenario_matchers 16 11
          (url_with_host ''http://example.comx/'' 7 12))) = ''example.comx''"
  by code_simp

theorem tld_callback_accepts_hit_before_last_byte_witness:
  "fst (rspamd_tld_trie_callback scenario_matchers 16 11
          (url_with_host ''http://example.comx/'' 7 12)) \<noteq> 0
   \<and> 11 + 1 = hostlen (url_with_host ''http://example.comx/'' 7 12)
   \<and> host_byte (url_with_host ''http://example.comx/'' 7 12) 11 \<noteq> CHR ''.''"
proof -
  have "hostlen (url_with_host ''http://example.comx/'' 7 12) = 12"
    by (simp add: url_with_host_def)
  then show ?thesis
    using tld_callback_accepts_hit_before_last_byte by simp
qed

section \<open>The port\<close>

text \<open>
  C3. The parser means to refuse a port of 0 or above 65535, but it keeps the value of
  \<open>strtoul\<close> in a signed \<open>glong\<close>: for a port of twenty digits \<open>strtoul\<close> returns
  \<open>ULONG_MAX\<close>, which is \<open>-1\<close> as a \<open>glong\<close>, passes the test
  \<open>pt == 0 || pt > 65535\<close> and is stored as 65535. The URL is accepted by the web parser
  and by \<open>rspamd_url_parse\<close>.
\<close>

theorem web_parse_accepts_overflowing_port:
  "fst (strtoul ''99999999999999999999/'' 10) = word_of_int ULONG_MAX
   \<and> sint (fst (strtoul ''99999999999999999999/'' 10)) = - 1
   \<and> (case rspamd_web_parse lib True ''http://example.com:99999999999999999999/'' of
         (ret, u, e) \<Rightarrow> ret = 0 \<and> u_port u = 65535 \<and> e = 40)
   \<and> (case rspamd_url_parse lib scenario_matchers ''http://example.com:99999999999999999999/'' of
         (rc, uri) \<Rightarrow> rc = URI_ERRNO_OK \<and> port uri = 65535)"
  by code_simp

theorem web_parse_accepts_overflowing_port_witness:
  "fst (rspamd_web_parse ascii_library True ''http://example.com:99999999999999999999/'') = 0
   \<and> fst (rspamd_url_parse ascii_library scenario_matchers
           ''http://example.com:99999999999999999999/'') = URI_ERRNO_OK
   \<and> port (snd (rspamd_url_parse ascii_library scenario_matchers
           ''http://example.com:99999999999999999999/'')) = 65535"
  using web_parse_accepts_overflowing_port [of ascii_library]
  by (simp split: prod.splits)

section \<open>The empty URL\<close>

lemma parse_buffer_not_EMPTY: "fst (rspamd_url_parse_buffer lib ms p u) \<noteq> URI_ERRNO_EMPTY"
  by (simp add: rspamd_url_parse_buffer_def url_find_tld_def Let_def split: prod.splits)

text \<open>
  C9 (as the code has it). \<open>rspamd_url_parse\<close> tests the first byte of the text, not its
  length: it returns \<open>URI_ERRNO_EMPTY\<close> exactly when the text is empty as a C string, that
  is when it has no byte at all or begins with a NUL byte.
\<close>

theorem url_parse_EMPTY_iff:
  "fst (rspamd_url_parse lib ms str) = URI_ERRNO_EMPTY \<longleftrightarrow> str = [] \<or> hd str = NUL"
proof -
  have "byte_at str 0 = NUL \<longleftrightarrow> str = [] \<or> hd str = NUL"
    by (cases str) (simp_all add: byte_at_def)
  then show ?thesis
    by (simp add: rspamd_url_parse_def parse_buffer_not_EMPTY Let_def split: prod.splits)
qed

theorem url_parse_EMPTY_iff_witness:
  "fst (rspamd_url_parse ascii_library scenario_matchers []) = URI_ERRNO_EMPTY
   \<and> fst (rspamd_url_parse ascii_library scenario_matchers ''a'') \<noteq> URI_ERRNO_EMPTY"
  using url_parse_EMPTY_iff [of ascii_library scenario_matchers "[]"]
    url_parse_EMPTY_iff [of ascii_library scenario_matchers "''a''"]
  by simp

text \<open>
  C9 as the specification words it fails: a text of two bytes that begins with a NUL byte
  is not zero bytes long, and the result is \<open>URI_ERRNO_EMPTY\<close>.
\<close>

theorem url_parse_EMPTY_counterexample:
  "fst (rspamd_url_parse ascii_library scenario_matchers [NUL, CHR ''a'']) = URI_ERRNO_EMPTY
   \<and> length [NUL, CHR ''a''] = 2"
  by code_simp

section \<open>A host in numeric notation\<close>

text \<open>
  C5. With the suffix list of the scenarios, parsing \<open>http://0x7f.1/\<close> succeeds; the host
  is the canonical text \<open>127.0.0.1\<close> and the flags are \<open>NUMERIC\<close> and \<open>OBSCURED\<close>: the
  first component \<open>0x7f\<close> is the first byte and the last component fills the low-order
  bytes. The machine is little-endian.
\<close>

theorem url_parse_obscured_host:
  "case rspamd_url_parse lib scenario_matchers ''http://0x7f.1/'' of
     (rc, uri) \<Rightarrow>
       rc = URI_ERRNO_OK \<and> host_bytes uri = ''127.0.0.1''
       \<and> flags uri = {RSPAMD_URL_FLAG_NUMERIC, RSPAMD_URL_FLAG_OBSCURED}
       \<and> protocol uri = PROTOCOL_HTTP \<and> tld_bytes uri = ''127.0.0.1''"
  by code_simp

theorem url_parse_obscured_host_witness:
  "fst (rspamd_url_parse ascii_library scenario_matchers ''http://0x7f.1/'') = URI_ERRNO_OK
   \<and> host_bytes (snd (rspamd_url_parse ascii_library scenario_matchers ''http://0x7f.1/''))
       = ''127.0.0.1''
   \<and> flags (snd (rspamd_url_parse ascii_library scenario_matchers ''http://0x7f.1/''))
       = {RSPAMD_URL_FLAG_NUMERIC, RSPAMD_URL_FLAG_OBSCURED}"
  using url_parse_obscured_host [of ascii_library]
  by (simp split: prod.splits)

section \<open>The numeric host and its TLD\<close>

lemma is_ip_result:
  "rspamd_url_is_ip lib uri = (ok, uri') \<Longrightarrow>
     (ok \<longrightarrow> RSPAMD_URL_FLAG_NUMERIC \<in> flags uri' \<and> tld uri' = host uri'
            \<and> tldlen uri' = hostlen uri')
     \<and> (\<not> ok \<longrightarrow> uri' = uri)"
  by (auto simp: rspamd_url_is_ip_def numeric_host_def Let_def
           split: option.splits prod.splits if_splits)

lemma find_tld_flags: "flags (snd (find_tld url p n)) = flags url"
  by (simp add: find_tld_def Let_def split: prod.splits)

lemma tld_callback_flags: "flags (snd (rspamd_tld_trie_callback ms i tp url)) = flags url"
  by (simp add: rspamd_tld_trie_callback_def Let_def find_tld_flags)

lemma report_hits_invariant:
  assumes "\<And>i tp c. P c \<Longrightarrow> P (snd (cb i tp c))" and "P ctx"
  shows "P (snd (report_hits cb hits textpos ctx))"
  using assms(2)
proof (induction hits arbitrary: ctx)
  case Nil
  then show ?case by simp
next
  case (Cons i rest)
  obtain r c' where e: "cb i textpos ctx = (r, c')"
    by (cases "cb i textpos ctx") auto
  have "P (snd (cb i textpos ctx))" using assms(1) Cons.prems by blast
  then have p: "P c'" by (simp add: e)
  show ?case
    using Cons.IH [OF p] p by (simp add: e)
qed

lemma acism_scan_invariant:
  assumes "\<And>i tp c. P c \<Longrightarrow> P (snd (cb i tp c))" and "P ctx"
  shows "P (snd (acism_scan cb pats text positions ctx))"
  using assms(2)
proof (induction positions arbitrary: ctx)
  case Nil
  then show ?case by simp
next
  case (Cons tp rest)
  obtain r c' where e: "report_hits cb (hits_at pats text tp) tp ctx = (r, c')"
    by (cases "report_hits cb (hits_at pats text tp) tp ctx") auto
  have "P (snd (report_hits cb (hits_at pats text tp) tp ctx))"
    using assms(1) Cons.prems by (rule report_hits_invariant)
  then have p: "P c'" by (simp add: e)
  show ?case
    using Cons.IH [OF p] p by (simp add: e)
qed

lemma acism_lookup_invariant:
  assumes "\<And>i tp c. P c \<Longrightarrow> P (snd (cb i tp c))" and "P ctx"
  shows "P (snd (acism_lookup pats text cb ctx))"
  unfolding acism_lookup_def using assms by (rule acism_scan_invariant)

lemma shift_flags [simp]:
  "flags (shift_fragment k uri) = flags uri" "flags (shift_query k uri) = flags uri"
  "flags (shift_data k uri) = flags uri" "flags (shift_user_host k uri) = flags uri"
  by (simp_all add: shift_fragment_def shift_query_def shift_data_def shift_user_host_def)

lemma url_shift_flags [simp]: "flags (rspamd_url_shift uri n f) = flags uri"
  by (cases f) (simp_all add: rspamd_url_shift_def Let_def)

lemma decode_component_flags [simp]: "flags (decode_component uri q len f) = flags uri"
  by (simp add: decode_component_def Let_def)

lemma url_decode_lower_flags: "flags (url_decode_lower lib p uri) = flags uri"
  by (simp add: url_decode_lower_def Let_def)

lemma url_of_fields_flags: "flags (url_of_fields u) = {}"
  by (simp add: url_of_fields_def url_zero_def)

lemma url_find_tld_numeric:
  assumes "flags uri = {}"
    and "RSPAMD_URL_FLAG_NUMERIC \<in> flags (snd (url_find_tld lib ms uri))"
  shows "tld (snd (url_find_tld lib ms uri)) = host (snd (url_find_tld lib ms uri))
         \<and> tldlen (snd (url_find_tld lib ms uri)) = hostlen (snd (url_find_tld lib ms uri))"
proof -
  obtain found uri1 where l: "acism_lookup (map pattern ms) (host_bytes uri)
                            (rspamd_tld_trie_callback ms) uri = (found, uri1)"
    by (cases "acism_lookup (map pattern ms) (host_bytes uri) (rspamd_tld_trie_callback ms) uri")
       auto
  have "flags (snd (acism_lookup (map pattern ms) (host_bytes uri)
                            (rspamd_tld_trie_callback ms) uri)) = {}"
    by (rule acism_lookup_invariant [where P = "\<lambda>c. flags c = {}"])
       (simp_all add: tld_callback_flags assms(1))
  then have f1: "flags uri1 = {}" by (simp add: l)
  obtain ok uri2 where i: "rspamd_url_is_ip lib uri1 = (ok, uri2)"
    by (cases "rspamd_url_is_ip lib uri1") auto
  from is_ip_result [OF i] f1 assms(2) show ?thesis
    by (auto simp: url_find_tld_def l i Let_def split: if_splits)
qed

text \<open>
  C4. Whenever a branch of the numeric-host decoder succeeds, the flag \<open>NUMERIC\<close> is set,
  \<open>tld\<close> is the pointer \<open>host\<close> and \<open>tldlen\<close> is \<open>hostlen\<close>; and in every record that
  \<open>rspamd_url_parse\<close> leaves with the flag \<open>NUMERIC\<close>, whatever its result, \<open>tld\<close> is
  \<open>host\<close> and \<open>tldlen\<close> is \<open>hostlen\<close>.
\<close>

theorem numeric_host_tld_is_host:
  "(rspamd_url_is_ip lib uri = (True, uri') \<longrightarrow>
      RSPAMD_URL_FLAG_NUMERIC \<in> flags uri' \<and> tld uri' = host uri'
      \<and> tldlen uri' = hostlen uri')
   \<and> (RSPAMD_URL_FLAG_NUMERIC \<in> flags (snd (rspamd_url_parse lib ms str)) \<longrightarrow>
        tld (snd (rspamd_url_parse lib ms str)) = host (snd (rspamd_url_parse lib ms str))
        \<and> tldlen (snd (rspamd_url_parse lib ms str))
           = hostlen (snd (rspamd_url_parse lib ms str)))"
proof -
  have b: "RSPAMD_URL_FLAG_NUMERIC \<in> flags (snd (rspamd_url_parse_buffer lib ms p u)) \<Longrightarrow>
        tld (snd (rspamd_url_parse_buffer lib ms p u))
          = host (snd (rspamd_url_parse_buffer lib ms p u))
        \<and> tldlen (snd (rspamd_url_parse_buffer lib ms p u))
           = hostlen (snd (rspamd_url_parse_buffer lib ms p u))" for p u
    using url_find_tld_numeric [of "url_decode_lower lib p (url_of_fields u)" lib ms]
    by (auto simp: rspamd_url_parse_buffer_def url_decode_lower_flags url_of_fields_flags
             split: if_splits)
  have z: "flags url_zero = {}" by (simp add: url_zero_def)
  show ?thesis
    using is_ip_result [of lib uri True uri'] b z
    by (auto simp: rspamd_url_parse_def Let_def split: prod.splits if_splits)
qed

theorem numeric_host_tld_is_host_witness:
  "rspamd_url_is_ip ascii_library (url_with_host ''http://3232235777/'' 7 10)
     = (True, numeric_host (url_with_host ''http://3232235777/'' 7 10) ''192.168.1.1''
                {RSPAMD_URL_FLAG_NUMERIC, RSPAMD_URL_FLAG_OBSCURED})
   \<and> RSPAMD_URL_FLAG_NUMERIC
        \<in> flags (snd (rspamd_url_parse ascii_library scenario_matchers ''http://192.168.1.1/''))
   \<and> tld (snd (rspamd_url_parse ascii_library scenario_matchers ''http://192.168.1.1/''))
       = Some (Host_buffer, 0)
   \<and> host_bytes (snd (rspamd_url_parse ascii_library scenario_matchers ''http://192.168.1.1/''))
       = ''192.168.1.1''
   \<and> tldlen (snd (rspamd_url_parse ascii_library scenario_matchers ''http://192.168.1.1/'')) = 11"
proof -
  have a: "rspamd_url_is_ip ascii_library (url_with_host ''http://3232235777/'' 7 10)
     = (True, numeric_host (url_with_host ''http://3232235777/'' 7 10) ''192.168.1.1''
                {RSPAMD_URL_FLAG_NUMERIC, RSPAMD_URL_FLAG_OBSCURED})"
    by code_simp
  have f: "RSPAMD_URL_FLAG_NUMERIC
        \<in> flags (snd (rspamd_url_parse ascii_library scenario_matchers ''http://192.168.1.1/''))"
    by code_simp
  have h: "host (snd (rspamd_url_parse ascii_library scenario_matchers ''http://192.168.1.1/''))
             = Some (Host_buffer, 0)"
     "hostlen (snd (rspamd_url_parse ascii_library scenario_matchers ''http://192.168.1.1/''))
             = 11"
     "host_bytes (snd (rspamd_url_parse ascii_library scenario_matchers ''http://192.168.1.1/''))
       = ''192.168.1.1''"
    by code_simp+
  show ?thesis
    using numeric_host_tld_is_host [of ascii_library "url_with_host ''http://3232235777/'' 7 10"
        "numeric_host (url_with_host ''http://3232235777/'' 7 10) ''192.168.1.1''
                {RSPAMD_URL_FLAG_NUMERIC, RSPAMD_URL_FLAG_OBSCURED}" scenario_matchers
        "''http://192.168.1.1/''"] a f h
    by simp
qed

section \<open>Text after the end of the URL\<close>

lemma length_write_at [simp]: "length (write_at buf off new) = length buf"
  by (simp add: write_at_def min_def)

lemma length_memmove [simp]: "length (memmove buf dst src n) = length buf"
  by (simp add: memmove_def)

lemma shift_urllen [simp]:
  "urllen (shift_fragment k uri) = urllen uri" "urllen (shift_query k uri) = urllen uri"
  "urllen (shift_data k uri) = urllen uri" "urllen (shift_user_host k uri) = urllen uri"
  "url_string (shift_fragment k uri) = url_string uri"
  "url_string (shift_query k uri) = url_string uri"
  "url_string (shift_data k uri) = url_string uri"
  "url_string (shift_user_host k uri) = url_string uri"
  by (simp_all add: shift_fragment_def shift_query_def shift_data_def shift_user_host_def)

lemma url_shift_urllen [simp]:
  "urllen (rspamd_url_shift uri n f) = urllen uri"
  "length (url_string (rspamd_url_shift uri n f)) = length (url_string uri)"
  by (cases f; simp add: rspamd_url_shift_def Let_def)+

lemma decode_component_urllen [simp]:
  "urllen (decode_component uri q len f) = urllen uri"
  "length (url_string (decode_component uri q len f)) = length (url_string uri)"
  by (simp_all add: decode_component_def Let_def)














section \<open>The parser loops and their invariants\<close>











section \<open>The return value of the two parsers\<close>

lemma mailto_step_jump:
  "mailto_step str s = Jump e s' \<Longrightarrow> e = Goto_out"
  unfolding mailto_step_def Let_def
  by (cases "m_st s") (simp_all split: if_splits)




section \<open>The user of a \<open>mailto:\<close> URL\<close>

lemma shift_userlen [simp]:
  "userlen (shift_fragment k uri) = userlen uri" "userlen (shift_query k uri) = userlen uri"
  "userlen (shift_data k uri) = userlen uri" "userlen (shift_user_host k uri) = userlen uri"
  by (simp_all add: shift_fragment_def shift_query_def shift_data_def shift_user_host_def)

lemma url_shift_userlen [simp]: "userlen (rspamd_url_shift uri n f) = userlen uri"
  by (cases f; simp add: rspamd_url_shift_def Let_def)

lemma decode_component_userlen [simp]:
  "userlen (decode_component uri q len f) = userlen uri"
  by (simp add: decode_component_def Let_def)








section \<open>The strict web parser never yields the scheme \<open>mailto\<close>\<close>









lemma ptr_off_sub [simp]: "ptr_off (ptr_sub q k) = ptr_off q - k"
  by (simp add: ptr_off_def ptr_sub_def split: option.splits)



lemma shift_fragment_fields [simp]:
  "host (shift_fragment k u) = host u" "hostlen (shift_fragment k u) = hostlen u"
  "data (shift_fragment k u) = data u" "datalen (shift_fragment k u) = datalen u"
  "query (shift_fragment k u) = query u" "querylen (shift_fragment k u) = querylen u"
  "fragmentlen (shift_fragment k u) = fragmentlen u"
  "protocollen (shift_fragment k u) = protocollen u"
  "ptr_off (fragment (shift_fragment k u))
     = (if 0 < fragmentlen u then ptr_off (fragment u) - k else ptr_off (fragment u))"
  by (simp_all add: shift_fragment_def)

lemma shift_query_fields [simp]:
  "host (shift_query k u) = host u" "hostlen (shift_query k u) = hostlen u"
  "data (shift_query k u) = data u" "datalen (shift_query k u) = datalen u"
  "querylen (shift_query k u) = querylen u"
  "fragmentlen (shift_query k u) = fragmentlen u"
  "protocollen (shift_query k u) = protocollen u"
  "ptr_off (query (shift_query k u))
     = (if 0 < querylen u then ptr_off (query u) - k else ptr_off (query u))"
  "ptr_off (fragment (shift_query k u))
     = (if 0 < fragmentlen u then ptr_off (fragment u) - k else ptr_off (fragment u))"
  by (simp_all add: shift_query_def)

lemma shift_data_fields [simp]:
  "host (shift_data k u) = host u" "hostlen (shift_data k u) = hostlen u"
  "datalen (shift_data k u) = datalen u"
  "querylen (shift_data k u) = querylen u"
  "fragmentlen (shift_data k u) = fragmentlen u"
  "protocollen (shift_data k u) = protocollen u"
  "ptr_off (data (shift_data k u))
     = (if 0 < datalen u then ptr_off (data u) - k else ptr_off (data u))"
  "ptr_off (query (shift_data k u))
     = (if 0 < querylen u then ptr_off (query u) - k else ptr_off (query u))"
  "ptr_off (fragment (shift_data k u))
     = (if 0 < fragmentlen u then ptr_off (fragment u) - k else ptr_off (fragment u))"
  by (simp_all add: shift_data_def)























end
